theory Spec2Isabelle
  imports Complex_Main "HOL-Library.Word"
begin

section \<open>Python and NumPy building blocks\<close>

text \<open>
  The model follows \<^verbatim>\<open>src/sedgen/initialization.py\<close>. Exceptions are values: a function
  that may raise returns \<open>py_error + 'a\<close>, with \<open>Inl\<close> the exception. Arrays are lists.
  Counts of mono-crystalline grains are \<open>uint32\<close> cells and keep their wrap-around;
  \<open>float64\<close> quantities (probabilities, volumes, residues) are idealised as reals.
\<close>

datatype py_error = IndexError | ValueError | TypeError

type_synonym uint32 = "32 word"

definition bindE :: "py_error + 'a \<Rightarrow> ('a \<Rightarrow> py_error + 'b) \<Rightarrow> py_error + 'b" where
  "bindE r f = (case r of Inl e \<Rightarrow> Inl e | Inr x \<Rightarrow> f x)"

fun mapE :: "('a \<Rightarrow> py_error + 'b) \<Rightarrow> 'a list \<Rightarrow> py_error + 'b list" where
  "mapE f [] = Inr []"
| "mapE f (x # xs) = bindE (f x) (\<lambda>y. bindE (mapE f xs) (\<lambda>ys. Inr (y # ys)))"

definition norm_index :: "nat \<Rightarrow> int \<Rightarrow> py_error + nat" where
  \<comment> \<open>an index into an axis of length \<open>n\<close>: negative indices count from the end\<close>
  "norm_index n i =
     (let j = (if i < 0 then i + int n else i)
      in if 0 \<le> j \<and> j < int n then Inr (nat j) else Inl IndexError)"

definition getitem :: "'a list \<Rightarrow> int \<Rightarrow> py_error + 'a" where
  \<comment> \<open>\<open>xs[i]\<close>\<close>
  "getitem xs i = bindE (norm_index (length xs) i) (\<lambda>j. Inr (xs ! j))"

definition nth_err :: "'a list \<Rightarrow> nat \<Rightarrow> py_error + 'a" where
  \<comment> \<open>\<open>xs[i]\<close> for an index that is not negative\<close>
  "nth_err xs i = (if i < length xs then Inr (xs ! i) else Inl IndexError)"

definition getitem2 :: "'a list list \<Rightarrow> nat \<Rightarrow> nat \<Rightarrow> py_error + 'a" where
  \<comment> \<open>\<open>a[i, j]\<close>\<close>
  "getitem2 a i j = bindE (nth_err a i) (\<lambda>row. nth_err row j)"

definition mask_select :: "'a list \<Rightarrow> bool list \<Rightarrow> py_error + 'a list" where
  \<comment> \<open>\<open>xs[mask]\<close> with a boolean mask, which must have the length of \<open>xs\<close>\<close>
  "mask_select xs msk =
     (if length msk = length xs then Inr (map fst (filter snd (zip xs msk)))
      else Inl IndexError)"

definition fancy_iadd :: "uint32 list \<Rightarrow> int list \<Rightarrow> uint32 list \<Rightarrow> py_error + uint32 list" where
  \<comment> \<open>\<open>a[idx] += vals\<close> with an integer index array: the old cells are gathered first,
      then written back in order, so that of a repeated index the last write stays\<close>
  "fancy_iadd a idx vals =
     bindE (mapE (norm_index (length a)) idx)
       (\<lambda>js. Inr (foldl (\<lambda>acc (j, v). acc[j := a ! j + v]) a (zip js vals)))"

section \<open>The model object\<close>

text \<open>
  The attributes of a \<open>SedGen\<close> instance that the modelled methods read or write. The
  tables built by the discretization mixins (not part of this file of the repository) are
  fields whose contents are parameters of the model.
\<close>

record sedgen =
  minerals :: "string list"
  n_minerals :: nat
  n_timesteps :: nat
  n_bins :: nat
  n_standard_cases :: nat
  enable_interface_location_prob :: bool
  enable_multi_pcg_breakage :: bool
  intra_cb_p :: "real list"
  minerals_N :: "int list"
  interface_array :: "nat list"
  interface_counts_matrix :: "int list list"
  interface_proportions_normalized :: "real list list"
  mcg :: "uint32 list list list"
  pcgs_new :: "nat list list"
  crystal_size_array_new :: "nat list list"
  interface_constant_prob_new :: "real list list"
  pcg_chem_weath_array_new :: "nat list list"
  intra_cb_threshold_bin_matrix :: "nat list list"
  search_volume_bins_medians_matrix :: "real list list list"
  intra_cb_breaks_matrix :: "int list list list list"
  diffs_volumes_matrix :: "real list list list list"
  negative_volume_thresholds :: "nat list list"
  volume_bins_medians_matrix :: "real list list list"
  volume_change_matrix :: "real list list list"

section \<open>Interface location weights\<close>

text \<open>
  The module-level function of \<^verbatim>\<open>initialization.py\<close>:
  \<^verbatim>\<open>
  def create_interface_location_prob(a):
      size, corr = divmod(a.size, 2)
      ranger = np.arange(size, 0, -1, dtype=np.uint32)
      chance = np.append(ranger, ranger[-2+corr::-1])
      return chance
  \<close>
  The entries are at most \<open>a.size div 2\<close>, so the \<open>uint32\<close> cells never wrap for an
  array that fits in memory; they are modelled as naturals.
\<close>

definition arange_down :: "nat \<Rightarrow> nat list" where
  \<comment> \<open>\<open>np.arange(size, 0, -1)\<close>: size, size - 1, ..., 1\<close>
  "arange_down n = rev [1..<Suc n]"

definition slice_back :: "int \<Rightarrow> 'a list \<Rightarrow> 'a list" where
  \<comment> \<open>\<open>xs[start::-1]\<close>: a negative start counts from the end and is clipped to \<open>-1\<close>
      (the empty slice), a start past the end is clipped to the last index\<close>
  "slice_back start xs =
     (let n = int (length xs);
          s0 = (if start < 0 then start + n else start);
          s = (if s0 < 0 then - 1 else if s0 \<ge> n then n - 1 else s0)
      in rev (take (nat (s + 1)) xs))"

definition create_interface_location_prob :: "'a list \<Rightarrow> nat list" where
  "create_interface_location_prob a =
     (let sz = length a div 2;
          corr = length a mod 2;
          ranger = arange_down sz
      in ranger @ slice_back (- 2 + int corr) ranger)"

text \<open>
  The ramp as the specification words it, for a pcg of length \<open>n\<close>:
  \<open>n div 2, n div 2 - 1, ..., 1\<close>, then one more \<open>1\<close> when \<open>n\<close> is odd, then
  \<open>1, 2, ..., n div 2\<close>.
\<close>

definition spec_location_weights :: "nat \<Rightarrow> nat list" where
  "spec_location_weights n =
     rev [1..<Suc (n div 2)] @ (if odd n then [1] else []) @ [1..<Suc (n div 2)]"

section \<open>Intra-crystal breakage\<close>

text \<open>
  \<open>perform_intra_crystal_breakage_2d\<close>, step 1: the number of grains selected per bin.
  \<^verbatim>\<open>
  if floor:
      # 1st time selection
      mcg_selected = np.floor(mcg_new * prob[m]).astype(np.uint32)
  else:
      # 2nd time selection
      mcg_selected = np.ceil(mcg_new * prob[m]).astype(np.uint32)
  \<close>
  The argument \<open>floor\<close> is the integer \<open>alternator % 2\<close> of the caller; Python takes a
  non-zero integer as true.
\<close>

definition mcg_selected :: "int \<Rightarrow> real \<Rightarrow> uint32 list \<Rightarrow> uint32 list" where
  "mcg_selected floor_arg p mcg_new =
     (if floor_arg \<noteq> 0 then map (\<lambda>c. word_of_int \<lfloor>real (unat c) * p\<rfloor>) mcg_new
      else map (\<lambda>c. word_of_int \<lceil>real (unat c) * p\<rceil>) mcg_new)"

text \<open>
  Step 2, the body of the loop over the selected bins at and above the threshold
  (\<open>for i, n_crystals in enumerate(mcg_selected[intra_cb_threshold_bin:])\<close>) for a bin with
  \<open>n_crystals \<noteq> 0\<close>. An empty list of break offsets makes \<open>breaker_counts\<close> empty and
  \<open>breaker_counts[-1]\<close> raises.
\<close>

definition break_bin ::
  "int list list \<Rightarrow> real list list \<Rightarrow> real list \<Rightarrow> nat \<Rightarrow> nat \<Rightarrow> nat \<Rightarrow> nat \<Rightarrow> uint32 \<Rightarrow>
   uint32 list \<times> real \<Rightarrow> py_error + (uint32 list \<times> real)" where
  "break_bin intra_cb_breaks diffs_volumes search_bins nbins intra_cb_threshold_bin
     start_bin_corr i n_crystals st =
   (case st of (mcg_new, residue_new) \<Rightarrow>
    bindE (nth_err intra_cb_breaks (i + start_bin_corr)) (\<lambda>breaks_i.
    bindE (nth_err diffs_volumes (i + start_bin_corr)) (\<lambda>diffs_i.
    bindE (mask_select breaks_i (map (\<lambda>d. 0 < d) diffs_i)) (\<lambda>intra_cb_breaks_to_use.
    bindE (mask_select diffs_i (map (\<lambda>d. 0 < d) diffs_i)) (\<lambda>diffs_volumes_to_use.
      let k = length intra_cb_breaks_to_use in
      if k = 0 then Inl IndexError
      else
        let breaker_size = unat n_crystals div k;
            breaker_remainder = unat n_crystals mod k;
            breaker_counts =
              (replicate k (of_nat breaker_size))
                [k - 1 := of_nat breaker_size + of_nat breaker_remainder];
            p1 = map (\<lambda>j. int i + int intra_cb_threshold_bin - int j) [1..<Suc k];
            p2 = map2 (-) p1 intra_cb_breaks_to_use
        in bindE (fancy_iadd mcg_new p1 breaker_counts) (\<lambda>mcg1.
           bindE (fancy_iadd mcg1 p2 breaker_counts) (\<lambda>mcg2.
           bindE (nth_err search_bins (i + intra_cb_threshold_bin + nbins)) (\<lambda>sb.
             Inr (mcg2,
                  residue_new +
                  sum_list (map2 (*) (map ((*) sb) diffs_volumes_to_use)
                              (map (\<lambda>c. real (unat c)) breaker_counts)))))))))))"

fun break_points ::
  "int list list \<Rightarrow> real list list \<Rightarrow> real list \<Rightarrow> nat \<Rightarrow> nat \<Rightarrow> nat \<Rightarrow> nat \<Rightarrow> uint32 list \<Rightarrow>
   uint32 list \<times> real \<Rightarrow> py_error + (uint32 list \<times> real)" where
  "break_points bs dv sb nbins thr sbc i [] st = Inr st"
| "break_points bs dv sb nbins thr sbc i (n_crystals # rest) st =
     (if n_crystals = 0 then break_points bs dv sb nbins thr sbc (Suc i) rest st
      else bindE (break_bin bs dv sb nbins thr sbc i n_crystals st)
             (\<lambda>st'. break_points bs dv sb nbins thr sbc (Suc i) rest st'))"

text \<open>
  \<^verbatim>\<open>
  def perform_intra_crystal_breakage_2d(self, mcg_old, m, n,
                                        intra_cb_threshold_bin=200,
                                        floor=True, start_bin_corr=5):
      ...
      residue_count = 0
      residue_new = 0
      ...
      return mcg_new, residue_new, residue_count
  \<close>
  The local \<open>residue_count\<close> is set once and returned; no statement of the body assigns it
  again.
\<close>

definition perform_intra_crystal_breakage_2d ::
  "sedgen \<Rightarrow> uint32 list \<Rightarrow> nat \<Rightarrow> nat \<Rightarrow> nat \<Rightarrow> int \<Rightarrow> nat \<Rightarrow>
   py_error + (uint32 list \<times> real \<times> uint32)" where
  "perform_intra_crystal_breakage_2d model mcg_old m n intra_cb_threshold_bin floor_arg
     start_bin_corr =
   (let prob = intra_cb_p model in
    bindE (getitem2 (search_volume_bins_medians_matrix model) m n) (\<lambda>search_bins.
    bindE (getitem2 (intra_cb_breaks_matrix model) m n) (\<lambda>intra_cb_breaks.
    bindE (getitem2 (diffs_volumes_matrix model) n m) (\<lambda>diffs_volumes.
      let mcg_new = mcg_old;
          residue_count = 0;
          residue_new = 0
      in bindE (nth_err prob m) (\<lambda>p.
         let selected = mcg_selected floor_arg p mcg_new;
             mcg_new = take intra_cb_threshold_bin mcg_new @
                       map2 (-) (drop intra_cb_threshold_bin mcg_new)
                                (drop intra_cb_threshold_bin selected)
         in bindE (break_points intra_cb_breaks diffs_volumes search_bins (n_bins model)
                     intra_cb_threshold_bin start_bin_corr 0
                     (drop intra_cb_threshold_bin selected) (mcg_new, residue_new))
              (\<lambda>(mcg_new, residue_new). Inr (mcg_new, residue_new, residue_count)))))))"

text \<open>
  \<open>intra_crystal_breakage_binned\<close>: the body of the double loop for the plane
  \<open>mcg[n, m]\<close>. A plane of zeros is copied; otherwise the plane is broken with
  \<open>floor=alternator % 2\<close>, and the writes to \<open>residue_new[n, m]\<close> and
  \<open>residue_count_new[n, m]\<close> need \<open>m < n_minerals\<close>.
\<close>

definition intra_plane ::
  "sedgen \<Rightarrow> int \<Rightarrow> nat \<Rightarrow> nat \<Rightarrow> nat \<Rightarrow> uint32 list \<Rightarrow> py_error + (uint32 list \<times> real \<times> uint32)" where
  "intra_plane model alternator start_bin_corr n m m_old =
     (if list_all (\<lambda>c. c = 0) m_old then Inr (m_old, 0, 0)
      else
        bindE (getitem2 (intra_cb_threshold_bin_matrix model) n m) (\<lambda>thr.
        bindE (perform_intra_crystal_breakage_2d model m_old m n (thr + start_bin_corr)
                 (alternator mod 2) start_bin_corr) (\<lambda>r.
          if m < n_minerals model then Inr r else Inl IndexError)))"

text \<open>
  \<^verbatim>\<open>
  def intra_crystal_breakage_binned(self, alternator, start_bin_corr=5):
      mcg_new = np.zeros_like(self.mcg)
      residue_new = np.zeros((self.n_timesteps, self.n_minerals), dtype=np.float64)
      residue_count_new = np.zeros((self.n_timesteps, self.n_minerals), dtype=np.uint32)
      for n in range(self.n_timesteps):
          for m, m_old in enumerate(self.mcg[n]):
              ...
      residue_new = np.sum(residue_new, axis=0)
      residue_count_new = np.sum(residue_count_new, axis=0)
      return mcg_new, residue_new, residue_count_new
  \<close>
  The two sums run over the chem-state axis and leave one entry per mineral. Planes of
  \<open>mcg\<close> beyond \<open>n_timesteps\<close> are never visited and stay zero in \<open>mcg_new\<close>.
\<close>

definition column_sum :: "'a::comm_monoid_add list list \<Rightarrow> nat \<Rightarrow> 'a" where
  \<comment> \<open>entry \<open>m\<close> of \<open>np.sum(a, axis=0)\<close>, rows of \<open>a\<close> padded with zeros\<close>
  "column_sum rows m = sum_list (map (\<lambda>row. if m < length row then row ! m else 0) rows)"

definition intra_crystal_breakage_binned ::
  "sedgen \<Rightarrow> int \<Rightarrow> nat \<Rightarrow> py_error + (uint32 list list list \<times> real list \<times> nat list)" where
  "intra_crystal_breakage_binned model alternator start_bin_corr =
     bindE
       (mapE (\<lambda>n. bindE (nth_err (mcg model) n) (\<lambda>plane.
                 mapE (\<lambda>(m, m_old). intra_plane model alternator start_bin_corr n m m_old)
                   (enumerate 0 plane)))
          [0..<n_timesteps model])
       (\<lambda>planes.
          let mcg_new = map (map fst) planes @
                        map (map (\<lambda>m_old. replicate (length m_old) 0))
                          (drop (n_timesteps model) (mcg model));
              residue_new =
                map (column_sum (map (map (\<lambda>r. fst (snd r))) planes))
                  [0..<n_minerals model];
              residue_count_new =
                map (column_sum (map (map (\<lambda>r. unat (snd (snd r)))) planes))
                  [0..<n_minerals model]
          in Inr (mcg_new, residue_new, residue_count_new))"

text \<open>A one-mineral, one-state model with eight bins, four grains in the top bin.\<close>

definition intra_example :: sedgen where
  "intra_example =
     \<lparr> minerals = [''Q''], n_minerals = 1, n_timesteps = 1, n_bins = 8,
       n_standard_cases = 0, enable_interface_location_prob = True,
       enable_multi_pcg_breakage = False, intra_cb_p = [1 / 2], minerals_N = [4],
       interface_array = [], interface_counts_matrix = [[0]],
       interface_proportions_normalized = [[1]],
       mcg = [[[0, 0, 0, 0, 0, 0, 0, 3]]], pcgs_new = [], crystal_size_array_new = [],
       interface_constant_prob_new = [], pcg_chem_weath_array_new = [],
       intra_cb_threshold_bin_matrix = [[0]],
       search_volume_bins_medians_matrix = [[replicate 16 1]],
       intra_cb_breaks_matrix = [[replicate 8 [0, 1]]],
       diffs_volumes_matrix = [[replicate 8 [1 / 4, 1 / 2]]],
       negative_volume_thresholds = [[0]],
       volume_bins_medians_matrix = [[replicate 8 1]],
       volume_change_matrix = [] \<rparr>"

section \<open>Chemical weathering of mono-crystalline grains\<close>

definition roll :: "int \<Rightarrow> 'a list \<Rightarrow> 'a list" where
  \<comment> \<open>\<open>np.roll(a, shift, axis=0)\<close>: the entry at \<open>i\<close> moves to \<open>(i + shift) mod len(a)\<close>\<close>
  "roll shift xs = map (\<lambda>j. xs ! nat ((int j - shift) mod int (length xs))) [0..<length xs]"

fun foldE :: "('s \<Rightarrow> 'a \<Rightarrow> py_error + 's) \<Rightarrow> 'a list \<Rightarrow> 's \<Rightarrow> py_error + 's" where
  "foldE f [] s = Inr s"
| "foldE f (x # xs) s = bindE (f s x) (foldE f xs)"

definition bcast :: "('a \<Rightarrow> 'b \<Rightarrow> py_error + 'c) \<Rightarrow> 'a list \<Rightarrow> 'b list \<Rightarrow> py_error + 'c list" where
  \<comment> \<open>an elementwise operation along one axis, with NumPy's broadcasting: the lengths
      agree or one of them is 1\<close>
  "bcast f xs ys =
     (if length xs = length ys then mapE (\<lambda>(x, y). f x y) (zip xs ys)
      else if length xs = 1 then mapE (f (hd xs)) ys
      else if length ys = 1 then mapE (\<lambda>x. f x (hd ys)) xs
      else Inl ValueError)"

definition count_times_volume :: "uint32 \<Rightarrow> real \<Rightarrow> py_error + real" where
  "count_times_volume c v = Inr (real (unat c) * v)"

text \<open>
  The body of the double loop \<open>for n in range(1, self.n_timesteps): for m in
  range(self.n_minerals)\<close>:
  \<^verbatim>\<open>
  threshold = self.negative_volume_thresholds[n, m]
  residue_1[m] += \
      np.sum(mcg_new[n, m, :threshold] *
             self.volume_bins_medians_matrix[n-1, m, :threshold])
  mcg_new[n, m, :threshold] = 0
  \<close>
\<close>

definition dissolve_step ::
  "sedgen \<Rightarrow> uint32 list list list \<times> real list \<Rightarrow> nat \<times> nat \<Rightarrow>
   py_error + (uint32 list list list \<times> real list)" where
  "dissolve_step model st nm =
     (case st of (mcg_new, residue_1) \<Rightarrow> case nm of (n, m) \<Rightarrow>
      bindE (getitem2 (negative_volume_thresholds model) n m) (\<lambda>threshold.
      bindE (getitem2 mcg_new n m) (\<lambda>cells.
      bindE (getitem2 (volume_bins_medians_matrix model) (n - 1) m) (\<lambda>volumes.
      bindE (bcast count_times_volume (take threshold cells) (take threshold volumes))
        (\<lambda>products.
          Inr (mcg_new[n := (mcg_new ! n)
                 [m := replicate (min threshold (length cells)) 0 @ drop threshold cells]],
               residue_1[m := residue_1 ! m + sum_list products]))))))"

definition dissolve_negative ::
  "sedgen \<Rightarrow> uint32 list list list \<Rightarrow> py_error + (uint32 list list list \<times> real list)" where
  "dissolve_negative model mcg_new =
     foldE (dissolve_step model)
       (concat (map (\<lambda>n. map (\<lambda>m. (n, m)) [0..<n_minerals model]) [1..<n_timesteps model]))
       (mcg_new, replicate (n_minerals model) 0)"

text \<open>
  \<open>residue_2 = np.sum(np.sum(mcg_new[1:] * self.volume_change_matrix, axis=0), axis=1)\<close>.
  The nested lists stand for rectangular arrays: when \<open>mcg_new[1:]\<close> is empty the number
  of minerals of the result is that of the planes of \<open>mcg_new\<close>.
\<close>

definition dissolved_volume :: "sedgen \<Rightarrow> uint32 list list list \<Rightarrow> py_error + real list" where
  "dissolved_volume model mcg_new =
     bindE (bcast (bcast (bcast count_times_volume)) (drop 1 mcg_new)
              (volume_change_matrix model))
       (\<lambda>products.
          let n_rows = (case products of p # _ \<Rightarrow> length p
                        | [] \<Rightarrow> (case mcg_new of p # _ \<Rightarrow> length p | [] \<Rightarrow> 0))
          in Inr (map (\<lambda>m. sum_list (map (\<lambda>plane. sum_list (plane ! m)) products))
                    [0..<n_rows]))"

definition all_zero :: "uint32 list list \<Rightarrow> bool" where
  \<comment> \<open>\<open>(plane == 0).all()\<close>\<close>
  "all_zero plane = list_all (list_all (\<lambda>c. c = 0)) plane"

definition chem_states_warning :: string where
  "chem_states_warning =
     ''End of chemical states reached, mcg that were reintroduced at zero chemical '' @
     ''weathering state during chem_weath_mcg have been rolled back to last chemical '' @
     ''weathering state.''"

text \<open>
  \<^verbatim>\<open>
  def chemical_weathering_mcg(self, shift=1):
      mcg_new = np.roll(self.mcg, shift=shift, axis=0)
      residue_1 = np.zeros(self.n_minerals, dtype=np.float64)
      for n in range(1, self.n_timesteps): ...
      residue_2 = ...
      residue_per_mineral = residue_1 + residue_2
      if not (mcg_new[0] == 0).all():
          mcg_new[-1] += mcg_new[0]
          mcg_new[0] = 0
          warnings.warn("End of chemical states reached, ...", UserWarning)
      return mcg_new, residue_per_mineral
  \<close>
  The third component of the result lists the warnings emitted.
\<close>

definition chemical_weathering_mcg ::
  "sedgen \<Rightarrow> int \<Rightarrow> py_error + (uint32 list list list \<times> real list \<times> string list)" where
  "chemical_weathering_mcg model shift =
     (let mcg_new = roll shift (mcg model) in
      bindE (dissolve_negative model mcg_new) (\<lambda>(mcg_new, residue_1).
      bindE (dissolved_volume model mcg_new) (\<lambda>residue_2.
      bindE (bcast (\<lambda>a b. Inr (a + b)) residue_1 residue_2) (\<lambda>residue_per_mineral.
      bindE (nth_err mcg_new 0) (\<lambda>slot0.
        if \<not> all_zero slot0 then
          let mcg_new = mcg_new[length mcg_new - 1 := map2 (map2 (+)) (last mcg_new) slot0];
              mcg_new = mcg_new[0 := map (\<lambda>row. replicate (length row) 0) (mcg_new ! 0)]
          in Inr (mcg_new, residue_per_mineral, [chem_states_warning])
        else Inr (mcg_new, residue_per_mineral, []))))))"

text \<open>Two minerals, three chem-states, four bins; the last chem-state holds grains.\<close>

definition chem_example :: sedgen where
  "chem_example =
     \<lparr> minerals = [''Q'', ''P''], n_minerals = 2, n_timesteps = 3, n_bins = 4,
       n_standard_cases = 0, enable_interface_location_prob = True,
       enable_multi_pcg_breakage = False, intra_cb_p = [1 / 2], minerals_N = [4, 4],
       interface_array = [], interface_counts_matrix = [[0, 0], [0, 0]],
       interface_proportions_normalized = [[1 / 2, 1 / 2], [1 / 2, 1 / 2]],
       mcg = [[[1, 2, 3, 4], [0, 0, 0, 0]],
              [[0, 5, 0, 6], [7, 0, 0, 0]],
              [[0, 0, 8, 0], [0, 9, 0, 0]]],
       pcgs_new = [], crystal_size_array_new = [],
       interface_constant_prob_new = [], pcg_chem_weath_array_new = [],
       intra_cb_threshold_bin_matrix = [[0, 0], [0, 0], [0, 0]],
       search_volume_bins_medians_matrix = [],
       intra_cb_breaks_matrix = [],
       diffs_volumes_matrix = [],
       negative_volume_thresholds = [[0, 0], [1, 1], [2, 2]],
       volume_bins_medians_matrix = replicate 3 (replicate 2 [1, 2, 4, 8]),
       volume_change_matrix = replicate 2 (replicate 2 [1 / 2, 1 / 2, 1, 1]) \<rparr>"

section \<open>Correction of the interface array\<close>

text \<open>
  The interface counts matrix comes from a helper outside this file; its cells are
  modelled as integers. \<open>a[i, j] += delta\<close> raises \<open>IndexError\<close> outside the matrix.
\<close>

definition matrix_iadd :: "int list list \<Rightarrow> nat \<Rightarrow> nat \<Rightarrow> int \<Rightarrow> py_error + int list list" where
  "matrix_iadd a i j delta =
     bindE (getitem2 a i j) (\<lambda>old. Inr (a[i := (a ! i)[j := old + delta]]))"

definition last_index_of :: "nat list \<Rightarrow> nat \<Rightarrow> py_error + nat" where
  \<comment> \<open>\<open>np.where(arr == index)[0][-1]\<close>\<close>
  "last_index_of arr index =
     (case filter (\<lambda>i. arr ! i = index) [0..<length arr] of
        [] \<Rightarrow> Inl IndexError
      | is \<Rightarrow> Inr (last is))"

text \<open>
  The \<open>try\<close> block of the "too much" branch. An \<open>IndexError\<close> inside it is swallowed by
  \<open>except IndexError: pass\<close>; the updates made before it stay. At \<open>corr_index = 0\<close> the
  index \<open>corr_index-1\<close> is \<open>-1\<close>, which reads the last crystal.
  \<^verbatim>\<open>
  pair_index = (interface_array_corr[corr_index-1], interface_array_corr[corr_index])
  interface_frequencies_corr[pair_index] -= prob_unit
  pair_index = (interface_array_corr[corr_index-1], interface_array_corr[corr_index+1])
  interface_frequencies_corr[pair_index] += prob_unit
  pair_index = (interface_array_corr[corr_index], interface_array_corr[corr_index+1])
  interface_frequencies_corr[pair_index] -= prob_unit
  \<close>
\<close>

definition stitch_interfaces :: "int list list \<Rightarrow> nat list \<Rightarrow> nat \<Rightarrow> int list list" where
  "stitch_interfaces freq arr corr_index =
     (let prob_unit = 1;
          left_crystal = arr ! (if corr_index = 0 then length arr - 1 else corr_index - 1);
          crystal = arr ! corr_index
      in case matrix_iadd freq left_crystal crystal (- prob_unit) of
           Inl _ \<Rightarrow> freq
         | Inr f1 \<Rightarrow>
             if corr_index + 1 < length arr then
               let right_crystal = arr ! (corr_index + 1)
               in case matrix_iadd f1 left_crystal right_crystal prob_unit of
                    Inl _ \<Rightarrow> f1
                  | Inr f2 \<Rightarrow>
                      (case matrix_iadd f2 crystal right_crystal (- prob_unit) of
                         Inl _ \<Rightarrow> f2
                       | Inr f3 \<Rightarrow> f3)
             else f1)"

definition np_delete :: "'a list \<Rightarrow> nat \<Rightarrow> 'a list" where
  "np_delete arr i = take i arr @ drop (Suc i) arr"

fun remove_crystals ::
  "nat \<Rightarrow> nat \<Rightarrow> nat list \<times> int list list \<Rightarrow> py_error + (nat list \<times> int list list)" where
  \<comment> \<open>\<open>for i in range(item)\<close>: remove the last occurrence of mineral \<open>index\<close>\<close>
  "remove_crystals index 0 st = Inr st"
| "remove_crystals index (Suc k) (arr, freq) =
     bindE (last_index_of arr index) (\<lambda>corr_index.
       remove_crystals index k
         (np_delete arr corr_index, stitch_interfaces freq arr corr_index))"

text \<open>
  One round of \<open>for index, item in enumerate(diff)\<close>. Each of the three branches prints
  \<open>self.minerals[index]\<close> first.
\<close>

definition correct_mineral ::
  "sedgen \<Rightarrow> nat list \<times> int list list \<Rightarrow> nat \<times> int \<Rightarrow> py_error + (nat list \<times> int list list)" where
  "correct_mineral model st ii =
     (case st of (arr, freq) \<Rightarrow> case ii of (index, item) \<Rightarrow>
      bindE (nth_err (minerals model) index) (\<lambda>_.
        if item > 0 then remove_crystals index (nat item) (arr, freq)
        else if item < 0 then
          bindE (getitem arr (- 1)) (\<lambda>last_crystal.
          bindE (matrix_iadd freq last_crystal index 1) (\<lambda>freq.
          bindE (matrix_iadd freq index index (- item - 1)) (\<lambda>freq'.
            Inr (arr @ replicate (nat (- item)) index, freq'))))
        else Inr (arr, freq)))"

text \<open>
  \<^verbatim>\<open>
  def perform_interface_array_correction(self):
      interface_array_corr = self.interface_array.copy()
      prob_unit = 1
      interface_frequencies_corr = self.interface_counts_matrix.copy()
      diff = [np.sum(self.interface_array == x) for x in range(6)] \
          - self.minerals_N
      for index, item in enumerate(diff):
          ...
      return interface_array_corr, interface_frequencies_corr
  \<close>
  The list of six counts minus the array \<open>minerals_N\<close> follows NumPy's broadcasting: it is
  defined when \<open>minerals_N\<close> has six entries or one, and raises \<open>ValueError\<close> otherwise.
\<close>

definition interface_array_diff :: "sedgen \<Rightarrow> py_error + int list" where
  "interface_array_diff model =
     bcast (\<lambda>a b. Inr (a - b))
       (map (\<lambda>x. int (count_list (interface_array model) x)) [0..<6])
       (minerals_N model)"

definition perform_interface_array_correction ::
  "sedgen \<Rightarrow> py_error + (nat list \<times> int list list)" where
  "perform_interface_array_correction model =
     bindE (interface_array_diff model) (\<lambda>diff.
       foldE (correct_mineral model) (enumerate 0 diff)
         (interface_array model, interface_counts_matrix model))"

text \<open>
  \<open>check_properties\<close> compares the same six counts with \<open>minerals_N\<close>, against
  \<open>[0] * self.n_minerals\<close>; \<open>calculate_actual_minerals_N\<close> counts over
  \<open>range(self.n_minerals)\<close>.
\<close>

definition calculate_actual_minerals_N :: "sedgen \<Rightarrow> nat list \<Rightarrow> int list" where
  "calculate_actual_minerals_N model arr =
     map (\<lambda>i. int (count_list arr i)) [0..<n_minerals model]"

text \<open>
  A two-mineral rock of three crystals whose interface array already agrees with
  \<open>minerals_N\<close>, and a six-mineral rock with one quartz crystal too many and one
  plagioclase crystal too few.
\<close>

definition two_minerals :: sedgen where
  "two_minerals =
     \<lparr> minerals = [''Q'', ''P''], n_minerals = 2, n_timesteps = 3, n_bins = 4,
       n_standard_cases = 0, enable_interface_location_prob = True,
       enable_multi_pcg_breakage = False, intra_cb_p = [1 / 2], minerals_N = [2, 1],
       interface_array = [0, 1, 0], interface_counts_matrix = [[0, 1], [1, 0]],
       interface_proportions_normalized = [[1 / 2, 1 / 2], [1 / 2, 1 / 2]],
       mcg = [], pcgs_new = [], crystal_size_array_new = [],
       interface_constant_prob_new = [], pcg_chem_weath_array_new = [],
       intra_cb_threshold_bin_matrix = [], search_volume_bins_medians_matrix = [],
       intra_cb_breaks_matrix = [], diffs_volumes_matrix = [],
       negative_volume_thresholds = [], volume_bins_medians_matrix = [],
       volume_change_matrix = [] \<rparr>"

definition six_minerals :: sedgen where
  "six_minerals =
     two_minerals
       \<lparr> minerals := [''Q'', ''P'', ''K'', ''B'', ''O'', ''A''], n_minerals := 6,
         minerals_N := [1, 2, 1, 1, 1, 1],
         interface_array := [0, 1, 0, 2, 3, 4, 5],
         interface_counts_matrix :=
           [[0, 1, 1, 0, 0, 0], [1, 0, 0, 0, 0, 0], [0, 0, 0, 1, 0, 0],
            [0, 0, 0, 0, 1, 0], [0, 0, 0, 0, 0, 1], [0, 0, 0, 0, 0, 0]] \<rparr>"

section \<open>Inter-crystal breakage\<close>

text \<open>
  \<^verbatim>\<open>
  def select_interface(i, probs, c):
      interface = (c[i] < np.cumsum(probs)).argmax() + 1
      return interface

  def calculate_normalized_probability(location_prob, prob):
      probability = location_prob * prob
      return probability / np.sum(probability)
  \<close>
  The uniform draws \<open>c\<close> of \<open>np.random.RandomState(step)\<close> are a parameter: \<open>c i\<close> is the
  draw used for the \<open>i\<close>-th pcg. \<open>argmax\<close> of a boolean array is the first index holding
  \<open>True\<close>, and 0 when there is none; it raises on an empty array.
\<close>

fun cumsum_from :: "'a::monoid_add \<Rightarrow> 'a list \<Rightarrow> 'a list" where
  "cumsum_from acc [] = []"
| "cumsum_from acc (x # xs) = (acc + x) # cumsum_from (acc + x) xs"

definition cumsum :: "'a::monoid_add list \<Rightarrow> 'a list" where
  \<comment> \<open>\<open>np.cumsum\<close>\<close>
  "cumsum xs = cumsum_from 0 xs"

definition argmax_bool :: "bool list \<Rightarrow> py_error + nat" where
  "argmax_bool bs =
     (if bs = [] then Inl ValueError
      else Inr (case filter (\<lambda>k. bs ! k) [0..<length bs] of [] \<Rightarrow> 0 | k # _ \<Rightarrow> k))"

definition select_interface :: "nat \<Rightarrow> real list \<Rightarrow> (nat \<Rightarrow> real) \<Rightarrow> py_error + nat" where
  "select_interface i probs c =
     bindE (argmax_bool (map (\<lambda>s. c i < s) (cumsum probs))) (\<lambda>k. Inr (k + 1))"

definition calculate_normalized_probability :: "nat list \<Rightarrow> real list \<Rightarrow> py_error + real list" where
  "calculate_normalized_probability location_prob prob =
     bindE (bcast (\<lambda>l p. Inr (real l * p)) location_prob prob) (\<lambda>probability.
       Inr (map (\<lambda>p. p / sum_list probability) probability))"

definition normalize :: "real list \<Rightarrow> real list" where
  \<comment> \<open>Modelled from the spec: \<open>gen.normalize\<close> is not in this file; "normalized probs =
      normalize(C)" divides the weights by their sum.\<close>
  "normalize prob = map (\<lambda>p. p / sum_list prob) prob"

text \<open>
  The table built by the constructor,
  \<open>[create_interface_location_prob(np.arange(x)) for x in range(1, n_standard_cases+1)]\<close>,
  and its use: \<open>self.standard_prob_loc_cases[pcg_length - 1]\<close> for a pcg of at most
  \<open>n_standard_cases\<close> crystals, the function itself for a longer one.
\<close>

definition standard_prob_loc_cases :: "sedgen \<Rightarrow> nat list list" where
  "standard_prob_loc_cases model =
     map (\<lambda>x. create_interface_location_prob [0..<x]) [1..<Suc (n_standard_cases model)]"

definition location_prob_of :: "sedgen \<Rightarrow> nat list \<Rightarrow> py_error + nat list" where
  "location_prob_of model pcg =
     (if length pcg \<le> n_standard_cases model
      then getitem (standard_prob_loc_cases model) (int (length pcg) - 1)
      else Inr (create_interface_location_prob pcg))"

definition array_split :: "'a list \<Rightarrow> nat list \<Rightarrow> 'a list list" where
  \<comment> \<open>\<open>np.array_split(a, indices)\<close> for a list of section boundaries: the sections
      \<open>a[0:i1], a[i1:i2], ..., a[ik:]\<close>\<close>
  "array_split a indices =
     map (\<lambda>(lo, hi). drop lo (take hi a)) (zip (0 # indices) (indices @ [length a]))"

text \<open>
  The state of the loop over the pcgs: the four output lists, the scratch lists
  \<open>mcg_temp[n][m]\<close> of size bins of freed crystals, and \<open>self.interface_counts_matrix\<close>,
  which the loop updates in place.
\<close>

record breakage_state =
  bs_pcgs :: "nat list list"
  bs_csize :: "nat list list"
  bs_prob :: "real list list"
  bs_chem :: "nat list list"
  bs_mcg_temp :: "nat list list list"
  bs_counts :: "int list list"

definition mcg_temp_append ::
  "nat list list list \<Rightarrow> nat \<Rightarrow> nat \<Rightarrow> nat \<Rightarrow> py_error + nat list list list" where
  \<comment> \<open>\<open>mcg_temp[n][m].append(k)\<close>\<close>
  "mcg_temp_append mcg_temp n m k =
     bindE (getitem2 mcg_temp n m) (\<lambda>inner.
       Inr (mcg_temp[n := (mcg_temp ! n)[m := inner @ [k]]]))"

definition free_crystal ::
  "breakage_state \<Rightarrow> nat list \<Rightarrow> nat list \<Rightarrow> nat list \<Rightarrow> nat \<Rightarrow> py_error + breakage_state" where
  \<comment> \<open>\<open>mcg_temp[chem[j]][pcg[j]].append(csize[j])\<close>\<close>
  "free_crystal st pcg csize chem j =
     bindE (nth_err chem j) (\<lambda>n.
     bindE (nth_err pcg j) (\<lambda>m.
     bindE (nth_err csize j) (\<lambda>k.
     bindE (mcg_temp_append (bs_mcg_temp st) n m k) (\<lambda>t.
       Inr (st\<lparr>bs_mcg_temp := t\<rparr>)))))"

text \<open>
  The branch taken without \<open>enable_multi_pcg_breakage\<close>:
  \<^verbatim>\<open>
  if interface != 1:  # This implies that len(new_prob) != 0
      pcgs_new_append(pcg[:interface])
      crystal_size_array_new_append(csize[:interface])
      pcg_chem_weath_array_new_append(chem[:interface])
      interface_constant_prob_new_append(prob[:interface-1])
  else:
      mcg_temp[chem[interface-1]][pcg[interface-1]].append(csize[interface-1])
  if pcg_length - interface != 1:
      pcgs_new_append(pcg[interface:])
      crystal_size_array_new_append(csize[interface:])
      pcg_chem_weath_array_new_append(chem[interface:])
      interface_constant_prob_new_append(prob[interface:])
  else:
      mcg_temp[chem[interface]][pcg[interface]].append(csize[interface])
  self.interface_counts_matrix[pcg[interface-1], pcg[interface]] -= 1
  \<close>
\<close>

definition single_break ::
  "breakage_state \<Rightarrow> nat list \<Rightarrow> real list \<Rightarrow> nat list \<Rightarrow> nat list \<Rightarrow> nat \<Rightarrow>
   py_error + breakage_state" where
  "single_break st pcg prob csize chem interface =
     bindE
       (if interface \<noteq> 1 then
          Inr (st\<lparr>bs_pcgs := bs_pcgs st @ [take interface pcg],
                  bs_csize := bs_csize st @ [take interface csize],
                  bs_chem := bs_chem st @ [take interface chem],
                  bs_prob := bs_prob st @ [take (interface - 1) prob]\<rparr>)
        else free_crystal st pcg csize chem (interface - 1))
       (\<lambda>st.
     bindE
       (if int (length pcg) - int interface \<noteq> 1 then
          Inr (st\<lparr>bs_pcgs := bs_pcgs st @ [drop interface pcg],
                  bs_csize := bs_csize st @ [drop interface csize],
                  bs_chem := bs_chem st @ [drop interface chem],
                  bs_prob := bs_prob st @ [drop interface prob]\<rparr>)
        else free_crystal st pcg csize chem interface)
       (\<lambda>st.
     bindE (nth_err pcg (interface - 1)) (\<lambda>a.
     bindE (nth_err pcg interface) (\<lambda>b.
     bindE (matrix_iadd (bs_counts st) a b (- 1)) (\<lambda>counts.
       Inr (st\<lparr>bs_counts := counts\<rparr>))))))"

text \<open>
  The branch taken with \<open>enable_multi_pcg_breakage\<close>:
  \<^verbatim>\<open>
  prob_selected = probability_normalized[interface]
  print(prob_selected)
  interfaces_selected = np.where(probability_normalized > prob_selected)[0]
  print(interfaces_selected, interfaces_selected.size)
  pcg_new = np.array_split(pcg, interfaces_selected)
  csize_new = np.array_split(csize, interfaces_selected)
  chem_new = np.array_split(chem, interfaces_selected)
  prob_new = np.array_split(prob, interfaces_selected)
  \<close>
  The four split results are locals that nothing reads afterwards: the branch appends
  nothing to the output lists or to \<open>mcg_temp\<close> and leaves the counts matrix alone.
\<close>

definition interfaces_selected :: "real list \<Rightarrow> real \<Rightarrow> nat list" where
  "interfaces_selected probability_normalized prob_selected =
     filter (\<lambda>k. probability_normalized ! k > prob_selected)
       [0..<length probability_normalized]"

definition multi_break ::
  "breakage_state \<Rightarrow> nat list \<Rightarrow> real list \<Rightarrow> nat list \<Rightarrow> nat list \<Rightarrow> real list \<Rightarrow> nat \<Rightarrow>
   py_error + breakage_state" where
  "multi_break st pcg prob csize chem probability_normalized interface =
     bindE (nth_err probability_normalized interface) (\<lambda>prob_selected.
       let selected = interfaces_selected probability_normalized prob_selected;
           pcg_new = array_split pcg selected;
           csize_new = array_split csize selected;
           chem_new = array_split chem selected;
           prob_new = array_split prob selected
       in Inr st)"

definition break_pcg ::
  "sedgen \<Rightarrow> (nat \<Rightarrow> real) \<Rightarrow> breakage_state \<Rightarrow>
   nat \<times> nat list \<times> real list \<times> nat list \<times> nat list \<Rightarrow> py_error + breakage_state" where
  "break_pcg model c st item =
     (case item of (i, pcg, prob, csize, chem) \<Rightarrow>
      bindE
        (if enable_interface_location_prob model then
           bindE (location_prob_of model pcg) (\<lambda>location_prob.
             calculate_normalized_probability location_prob prob)
         else Inr (normalize prob))
        (\<lambda>probability_normalized.
      bindE (select_interface i probability_normalized c) (\<lambda>interface.
        if enable_multi_pcg_breakage model
        then multi_break st pcg prob csize chem probability_normalized interface
        else single_break st pcg prob csize chem interface)))"

text \<open>
  After the loop the scratch lists are counted into a \<open>uint32\<close> array of shape
  \<open>(n_timesteps, n_minerals, n_bins)\<close>, which is added to a copy of \<open>self.mcg\<close>:
  \<^verbatim>\<open>
  for n, outer_list in enumerate(mcg_temp):
      for m, inner_list in enumerate(outer_list):
          if inner_list:
              mcg_temp_matrix[n, m] = np.bincount(inner_list, minlength=self.n_bins)
  mcg_new = self.mcg.copy()
  mcg_new += mcg_temp_matrix
  \<close>
  A size bin beyond \<open>n_bins\<close> makes the bincount longer than the row it is assigned to.
\<close>

definition bincount_row :: "nat \<Rightarrow> nat list \<Rightarrow> py_error + uint32 list" where
  "bincount_row nbins inner_list =
     (if inner_list = [] then Inr (replicate nbins 0)
      else if \<forall>k \<in> set inner_list. k < nbins
      then Inr (map (\<lambda>k. of_nat (count_list inner_list k)) [0..<nbins])
      else Inl ValueError)"

definition iadd_into :: "('a \<Rightarrow> 'b \<Rightarrow> py_error + 'a) \<Rightarrow> 'a list \<Rightarrow> 'b list \<Rightarrow> py_error + 'a list" where
  \<comment> \<open>\<open>xs += ys\<close> along one axis: \<open>ys\<close> has the length of \<open>xs\<close>, or length 1\<close>
  "iadd_into f xs ys =
     (if length ys = length xs then mapE (\<lambda>(x, y). f x y) (zip xs ys)
      else if length ys = 1 then mapE (\<lambda>x. f x (hd ys)) xs
      else Inl ValueError)"

definition add_mcg_temp ::
  "sedgen \<Rightarrow> nat list list list \<Rightarrow> py_error + uint32 list list list" where
  "add_mcg_temp model mcg_temp =
     bindE (mapE (mapE (bincount_row (n_bins model))) mcg_temp) (\<lambda>mcg_temp_matrix.
       iadd_into (iadd_into (iadd_into (\<lambda>x y. Inr (x + y)))) (mcg model) mcg_temp_matrix)"

text \<open>
  \<open>inter_crystal_breakage\<close>. The result lists \<open>pcgs_new\<close>, \<open>crystal_size_array_new\<close>,
  \<open>interface_constant_prob_new\<close>, \<open>pcg_chem_weath_array_new\<close> and \<open>mcg_new\<close> as the source
  returns them, and last the counts matrix of the instance after the call.
\<close>

definition inter_crystal_breakage_loop ::
  "sedgen \<Rightarrow> (nat \<Rightarrow> real) \<Rightarrow> py_error + breakage_state" where
  "inter_crystal_breakage_loop model c =
     foldE (break_pcg model c)
       (enumerate 0
          (zip (pcgs_new model)
            (zip (interface_constant_prob_new model)
              (zip (crystal_size_array_new model) (pcg_chem_weath_array_new model)))))
       \<lparr> bs_pcgs = [], bs_csize = [], bs_prob = [], bs_chem = [],
         bs_mcg_temp = replicate (n_timesteps model) (replicate (n_minerals model) []),
         bs_counts = interface_counts_matrix model \<rparr>"

definition inter_crystal_breakage ::
  "sedgen \<Rightarrow> (nat \<Rightarrow> real) \<Rightarrow>
   py_error + (nat list list \<times> nat list list \<times> real list list \<times> nat list list \<times>
               uint32 list list list \<times> int list list)" where
  "inter_crystal_breakage model c =
     bindE (inter_crystal_breakage_loop model c) (\<lambda>st.
     bindE (add_mcg_temp model (bs_mcg_temp st)) (\<lambda>mcg_new.
       Inr (bs_pcgs st, bs_csize st, bs_prob st, bs_chem st, mcg_new, bs_counts st)))"

text \<open>
  Two minerals, three chem-states, four bins, location weights on: a pcg of three
  crystals and a pcg of four crystals.
\<close>

definition breakage_example :: sedgen where
  "breakage_example =
     two_minerals
       \<lparr> n_standard_cases := 3,
         minerals_N := [4, 3],
         interface_array := [0, 1, 0, 1, 1, 0, 0],
         interface_counts_matrix := [[1, 1], [2, 1]],
         mcg := replicate 3 (replicate 2 (replicate 4 0)),
         pcgs_new := [[0, 1, 0], [1, 1, 0, 0]],
         crystal_size_array_new := [[3, 2, 1], [0, 1, 2, 3]],
         interface_constant_prob_new := [[1, 1], [1, 2, 1]],
         pcg_chem_weath_array_new := [[0, 0, 0], [1, 1, 1, 1]] \<rparr>"

section \<open>Invariants of the pcg state\<close>

definition pcg_invariant :: "nat list list \<Rightarrow> real list list \<Rightarrow> bool" where
  \<comment> \<open>every pcg has at least two crystals, and one interface weight per interface\<close>
  "pcg_invariant pcgs probs =
     list_all2 (\<lambda>pcg prob. 2 \<le> length pcg \<and> length prob = length pcg - 1) pcgs probs"

definition n_interfaces :: "nat list list \<Rightarrow> int" where
  \<comment> \<open>the sum over the pcgs of (pcg length - 1)\<close>
  "n_interfaces pcgs = sum_list (map (\<lambda>pcg. int (length pcg) - 1) pcgs)"

definition matrix_sum :: "int list list \<Rightarrow> int" where
  "matrix_sum a = sum_list (map sum_list a)"

definition n_crystals :: "nat list list \<Rightarrow> nat" where
  "n_crystals pcgs = sum_list (map length pcgs)"

definition n_freed :: "nat list list list \<Rightarrow> nat" where
  \<comment> \<open>the number of crystals recorded in \<open>mcg_temp\<close>\<close>
  "n_freed mcg_temp = sum_list (map (\<lambda>outer. sum_list (map length outer)) mcg_temp)"

text \<open>The same for a state of the loop of \<open>inter_crystal_breakage\<close>.\<close>

definition state_ok :: "breakage_state \<Rightarrow> bool" where
  "state_ok st = pcg_invariant (bs_pcgs st) (bs_prob st)"

definition state_crystals :: "breakage_state \<Rightarrow> nat" where
  "state_crystals st = n_crystals (bs_pcgs st) + n_freed (bs_mcg_temp st)"

section \<open>Chemical weathering of poly-crystalline grains\<close>

text \<open>
  Helpers of the module \<open>sedgen.general\<close>, which is not part of this file. The two
  probability helpers and \<open>expand_array\<close> are parameters of the model.
\<close>

record general =
  get_interface_size_prob :: "int list \<Rightarrow> real list"
  get_interface_strengths_prob :: "real list list \<Rightarrow> nat list \<Rightarrow> real list"
  expand_array :: "real list list \<Rightarrow> real list list"

definition count_and_convert_interfaces_to_matrix :: "nat list \<Rightarrow> nat \<Rightarrow> int list list" where
  \<comment> \<open>Modelled from the spec: \<open>gen.count_and_convert_interfaces_to_matrix\<close> is not in this
      file. "\<open>interface_counts[a, b]\<close>: M x M matrix; count of directed adjacent pairs
      \<open>(mineral_a, mineral_b)\<close>", and a pair with the separator value \<open>M\<close> "produces no
      valid pair when counting".\<close>
  "count_and_convert_interfaces_to_matrix arr n =
     map (\<lambda>a. map (\<lambda>b. int (length (filter (\<lambda>pair. pair = (a, b)) (zip arr (tl arr)))))
            [0..<n]) [0..<n]"

definition weighted_bin_count :: "nat list \<Rightarrow> real list \<Rightarrow> nat \<Rightarrow> real list" where
  \<comment> \<open>Modelled from the spec: \<open>gen.weighted_bin_count\<close> is not in this file. The residue
      of mineral \<open>m\<close> is the sum of the volumes of the crystals labelled \<open>m\<close>.\<close>
  "weighted_bin_count labels weights n =
     map (\<lambda>m. sum_list (map snd (filter (\<lambda>lw. fst lw = m) (zip labels weights)))) [0..<n]"

text \<open>
  \<open>np.insert(arr, indices, value)\<close> puts \<open>value\<close> in front of each listed position of the
  original array, the positions taken in ascending order; a position past the end raises.
  \<open>np.delete(arr, indices)\<close> drops the listed positions. \<open>np.unique(..., return_index=True,
  return_counts=True)\<close> gives the sorted distinct values, the first position of each and how
  often each occurs.
\<close>

fun insert_at :: "'a list \<Rightarrow> nat list \<Rightarrow> 'a \<Rightarrow> nat \<Rightarrow> py_error + 'a list" where
  "insert_at xs [] v pos = Inr xs"
| "insert_at [] (i # is) v pos =
     (if i \<le> pos then bindE (insert_at [] is v pos) (\<lambda>r. Inr (v # r)) else Inl IndexError)"
| "insert_at (x # xs) (i # is) v pos =
     (if i \<le> pos then bindE (insert_at (x # xs) is v pos) (\<lambda>r. Inr (v # r))
      else bindE (insert_at xs (i # is) v (Suc pos)) (\<lambda>r. Inr (x # r)))"

definition np_insert :: "'a list \<Rightarrow> nat list \<Rightarrow> 'a \<Rightarrow> py_error + 'a list" where
  "np_insert arr indices v = insert_at arr (sort indices) v 0"

definition delete_indices :: "'a list \<Rightarrow> nat list \<Rightarrow> 'a list" where
  "delete_indices arr indices =
     map (\<lambda>i. arr ! i) (filter (\<lambda>i. i \<notin> set indices) [0..<length arr])"

definition first_index :: "nat list \<Rightarrow> nat \<Rightarrow> nat" where
  "first_index xs v = length (takeWhile (\<lambda>x. x \<noteq> v) xs)"

definition np_unique :: "nat list \<Rightarrow> nat list \<times> nat list \<times> nat list" where
  "np_unique xs =
     (let unq = sort (remdups xs)
      in (unq, map (first_index xs) unq, map (count_list xs) unq))"

definition take_indices :: "'a list \<Rightarrow> nat list \<Rightarrow> py_error + 'a list" where
  \<comment> \<open>\<open>arr[indices]\<close> for an array of positions that are not negative\<close>
  "take_indices arr indices = mapE (nth_err arr) indices"

definition getitem3 :: "'a list list list \<Rightarrow> nat \<Rightarrow> nat \<Rightarrow> nat \<Rightarrow> py_error + 'a" where
  "getitem3 a i j k = bindE (getitem2 a i j) (\<lambda>row. nth_err row k)"

definition bcast_index ::
  "('a \<Rightarrow> 'b \<Rightarrow> py_error + 'c) \<Rightarrow> 'a list \<Rightarrow> 'b list \<Rightarrow> py_error + 'c list" where
  \<comment> \<open>index arrays that do not broadcast against each other raise \<open>IndexError\<close>\<close>
  "bcast_index f xs ys =
     (if length xs = length ys \<or> length xs = 1 \<or> length ys = 1 then bcast f xs ys
      else Inl IndexError)"

text \<open>
  The accounting of the pcgs that are left with a single crystal:
  \<^verbatim>\<open>
  pcg_to_mcg = pcg_remaining[pcg_lengths_cumul[pcg_lengths_remaining == 1] - 1]
  csize_to_mcg = csize_remaining[pcg_lengths_cumul[pcg_lengths_remaining == 1] - 1]
  chem_to_mcg = chem_remaining[pcg_lengths_cumul[pcg_lengths_remaining == 1] - 1]
  mcg_csize_unq, mcg_csize_ind, mcg_csize_cnt = \
      np.unique(csize_to_mcg, return_index=True, return_counts=True)
  self.mcg[chem_to_mcg[mcg_csize_ind],
           pcg_to_mcg[mcg_csize_ind],
           mcg_csize_unq] += mcg_csize_cnt.astype(np.uint32)
  \<close>
  The single crystals are grouped by size bin alone; each group is counted into the cell
  of the chem-state and mineral of its first member.
\<close>

definition mcg_cell_iadd ::
  "uint32 list list list \<Rightarrow> (nat \<times> nat \<times> nat) \<times> nat \<Rightarrow> py_error + uint32 list list list" where
  "mcg_cell_iadd a cell =
     (case cell of ((n, m, k), cnt) \<Rightarrow>
      bindE (getitem3 a n m k) (\<lambda>old.
        Inr (a[n := (a ! n)[m := (a ! n ! m)[k := old + of_nat cnt]]])))"

definition single_crystal_cells ::
  "nat list \<Rightarrow> nat list \<Rightarrow> nat list \<Rightarrow> nat list \<Rightarrow> nat list \<Rightarrow>
   py_error + ((nat \<times> nat \<times> nat) \<times> nat) list" where
  \<comment> \<open>the cells \<open>(chem-state, mineral, size bin)\<close> that are incremented, each with its
      increment\<close>
  "single_crystal_cells pcg_remaining csize_remaining chem_remaining
     pcg_lengths_remaining pcg_lengths_cumul =
     (let positions = map (\<lambda>(l, c). c - 1)
                        (filter (\<lambda>(l, c). l = 1) (zip pcg_lengths_remaining pcg_lengths_cumul))
      in bindE (take_indices pcg_remaining positions) (\<lambda>pcg_to_mcg.
         bindE (take_indices csize_remaining positions) (\<lambda>csize_to_mcg.
         bindE (take_indices chem_remaining positions) (\<lambda>chem_to_mcg.
           case np_unique csize_to_mcg of (mcg_csize_unq, mcg_csize_ind, mcg_csize_cnt) \<Rightarrow>
           bindE (take_indices chem_to_mcg mcg_csize_ind) (\<lambda>ns.
           bindE (take_indices pcg_to_mcg mcg_csize_ind) (\<lambda>ms.
             Inr (zip (zip ns (zip ms mcg_csize_unq)) mcg_csize_cnt)))))))"

definition promote_single_crystals ::
  "uint32 list list list \<Rightarrow> nat list \<Rightarrow> nat list \<Rightarrow> nat list \<Rightarrow> nat list \<Rightarrow> nat list \<Rightarrow>
   py_error + uint32 list list list" where
  "promote_single_crystals mcg_array pcg_remaining csize_remaining chem_remaining
     pcg_lengths_remaining pcg_lengths_cumul =
     bindE (single_crystal_cells pcg_remaining csize_remaining chem_remaining
              pcg_lengths_remaining pcg_lengths_cumul)
       (\<lambda>cells. foldE mcg_cell_iadd cells mcg_array)"

text \<open>
  The interface weights of the surviving pcgs, and their split into one array per pcg.
  \<open>pcg_lengths_remaining\<close> is built with \<open>dtype=np.uint32\<close>, so the boundaries of the split
  are a \<open>float64\<close> array: the split returns only when there is no boundary, that is when
  at most one pcg keeps a crystal.
\<close>

definition prob_remaining_of ::
  "general \<Rightarrow> sedgen \<Rightarrow> nat list \<Rightarrow> int list \<Rightarrow> py_error + real list" where
  "prob_remaining_of gen model pcg_concat_for_interfaces csize_concat_for_interfaces =
     (let interface_size_prob_concat =
            filter (\<lambda>x. 0 < x) (get_interface_size_prob gen csize_concat_for_interfaces);
          interface_strength_prob_concat =
            filter (\<lambda>x. 0 < x)
              (get_interface_strengths_prob gen
                 (expand_array gen (interface_proportions_normalized model))
                 pcg_concat_for_interfaces)
      in bcast (\<lambda>z s. Inr (z / s)) interface_size_prob_concat interface_strength_prob_concat)"

definition prob_split_points :: "nat list \<Rightarrow> nat \<Rightarrow> nat \<Rightarrow> py_error + real list" where
  \<comment> \<open>\<open>pcg_lengths_cumul_zero_deleted[:-1] - np.arange(1, len(pcg_remaining_list) - count_0)\<close>:
      the cumulative sums of a \<open>uint32\<close> array are \<open>uint64\<close>, the range is \<open>int64\<close>, and their
      difference is \<open>float64\<close>\<close>
  "prob_split_points pcg_lengths_cumul_zero_deleted n_lists count_0 =
     bcast (\<lambda>c k. Inr (real c - real k)) (butlast pcg_lengths_cumul_zero_deleted)
       [1..<n_lists - count_0]"

definition array_split_float :: "'a list \<Rightarrow> real list \<Rightarrow> py_error + 'a list list" where
  \<comment> \<open>\<open>np.array_split\<close> with \<open>float64\<close> boundaries: the first section \<open>a[0:i1]\<close> is a slice
      with a bound that is not an integer, which raises; without boundaries the one
      section is the whole array\<close>
  "array_split_float a indices = (if indices = [] then Inr [a] else Inl TypeError)"

text \<open>
  \<^verbatim>\<open>
  def chemical_weathering_pcg(self, shift=1):
      ...
      return pcgs_new, crystal_size_array_new, interface_constant_prob_new, \
          pcg_chem_weath_array_new, residue_per_mineral, \
          interface_counts_matrix_new
  \<close>
  The last component of the model's result is \<open>self.mcg\<close> after the call, which the method
  updates in place.
\<close>

definition chemical_weathering_pcg ::
  "general \<Rightarrow> sedgen \<Rightarrow>
   py_error + (nat list list \<times> nat list list \<times> real list list \<times> nat list list \<times>
               real list \<times> int list list \<times> uint32 list list list)" where
  "chemical_weathering_pcg gen model =
     (if pcgs_new model = [] \<or> crystal_size_array_new model = []
         \<or> pcg_chem_weath_array_new model = [] then Inl ValueError
      else
      let pcg_lengths = map length (pcgs_new model);
          pcg_concat = concat (pcgs_new model);
          csize_concat = concat (crystal_size_array_new model);
          chem_concat_old = concat (pcg_chem_weath_array_new model);
          chem_concat = map (\<lambda>s. s + 1) chem_concat_old
      in
      bindE (bcast_index (getitem2 (negative_volume_thresholds model)) chem_concat pcg_concat)
        (\<lambda>thresholds_concat.
      bindE (bcast (\<lambda>k t. Inr (k \<ge> t)) csize_concat thresholds_concat)
        (\<lambda>remaining_crystals.
      bindE (bcast (\<lambda>k (t :: nat). Inr (k < t)) csize_concat thresholds_concat) (\<lambda>dissolved.
      bindE (mask_select pcg_concat remaining_crystals) (\<lambda>pcg_remaining.
      bindE (mask_select csize_concat remaining_crystals) (\<lambda>csize_remaining.
      bindE (mask_select chem_concat remaining_crystals) (\<lambda>chem_remaining.
      bindE (mask_select chem_concat_old remaining_crystals) (\<lambda>chem_old_remaining.
      let pcg_filtered = array_split remaining_crystals (cumsum (butlast pcg_lengths));
          pcg_lengths_remaining = map (\<lambda>pcg. length (filter (\<lambda>b. b) pcg)) pcg_filtered;
          pcg_lengths_cumul = cumsum pcg_lengths_remaining;
          zero_indices =
            filter (\<lambda>i. pcg_lengths_remaining ! i = 0) [0..<length pcg_lengths_remaining];
          count_0 = length zero_indices;
          pcg_lengths_cumul_zero_deleted = delete_indices pcg_lengths_cumul zero_indices;
          pcg_remaining_list = array_split pcg_remaining (butlast pcg_lengths_cumul);
          csize_remaining_list = array_split csize_remaining (butlast pcg_lengths_cumul);
          chem_remaining_list = array_split chem_remaining (butlast pcg_lengths_cumul)
      in
      bindE (promote_single_crystals (mcg model) pcg_remaining csize_remaining chem_remaining
               pcg_lengths_remaining pcg_lengths_cumul) (\<lambda>mcg_updated.
      bindE (np_insert pcg_remaining (butlast pcg_lengths_cumul) (n_minerals model))
        (\<lambda>pcg_concat_for_interfaces.
      let interface_counts_matrix_new =
            count_and_convert_interfaces_to_matrix pcg_concat_for_interfaces (n_minerals model)
      in
      bindE (np_insert (map int csize_remaining) (butlast pcg_lengths_cumul) (- 1))
        (\<lambda>csize_concat_for_interfaces.
      bindE (prob_remaining_of gen model pcg_concat_for_interfaces csize_concat_for_interfaces)
        (\<lambda>prob_remaining.
      bindE (prob_split_points pcg_lengths_cumul_zero_deleted (length pcg_remaining_list) count_0)
        (\<lambda>points.
      bindE (array_split_float prob_remaining points) (\<lambda>prob_remaining_list.
      bindE (mask_select pcg_concat dissolved) (\<lambda>pcg_dissolved.
      bindE (mask_select csize_concat dissolved) (\<lambda>csize_dissolved.
      bindE (mask_select chem_concat_old dissolved) (\<lambda>chem_old_dissolved.
      bindE (mapE (\<lambda>(n, m, k). getitem3 (volume_bins_medians_matrix model) n m k)
               (zip chem_old_dissolved (zip pcg_dissolved csize_dissolved)))
        (\<lambda>volumes_old_selected.
      let residue_1 = weighted_bin_count pcg_dissolved volumes_old_selected (n_minerals model) in
      bindE (mapE (\<lambda>(n, m, k). getitem3 (volume_change_matrix model) n m k)
               (zip chem_old_remaining (zip pcg_remaining csize_remaining)))
        (\<lambda>dissolved_volume_selected.
      let residue_2 =
            weighted_bin_count pcg_remaining dissolved_volume_selected (n_minerals model);
          residue_per_mineral = map2 (+) residue_1 residue_2;
          pcgs_new' = filter (\<lambda>pcg. length pcg > 1) pcg_remaining_list;
          crystal_size_array_new' = filter (\<lambda>pcg. length pcg > 1) csize_remaining_list;
          pcg_chem_weath_array_new' = filter (\<lambda>pcg. length pcg > 1) chem_remaining_list;
          interface_constant_prob_new' = filter (\<lambda>prob. length prob \<noteq> 0) prob_remaining_list
      in Inr (pcgs_new', crystal_size_array_new', interface_constant_prob_new',
              pcg_chem_weath_array_new', residue_per_mineral, interface_counts_matrix_new,
              mcg_updated))))))))))))))))))))"

text \<open>
  Example helpers for running the model: one weight per adjacent pair, \<open>min + 1\<close> of the
  two size bins (zero at a separator \<open>-1\<close>), and the matrix entry of the two minerals
  (zero in the row and column added for the separator).
\<close>

definition example_general :: general where
  "example_general =
     \<lparr> get_interface_size_prob = (\<lambda>cs. map (\<lambda>(a, b). real_of_int (min a b + 1)) (zip cs (tl cs))),
       get_interface_strengths_prob =
         (\<lambda>props arr. map (\<lambda>(a, b). props ! a ! b) (zip arr (tl arr))),
       expand_array = (\<lambda>props. map (\<lambda>row. row @ [0]) props @ [replicate (Suc (length props)) 0]) \<rparr>"

definition weathering_example :: sedgen where
  "weathering_example =
     breakage_example
       \<lparr> n_timesteps := 4,
         mcg := replicate 4 (replicate 2 (replicate 4 0)),
         pcgs_new := [[0, 1, 0], [1, 1, 0, 0], [0, 0], [1, 0, 1]],
         crystal_size_array_new := [[3, 2, 1], [0, 1, 2, 3], [0, 0], [2, 0, 2]],
         interface_constant_prob_new := [[1, 1], [1, 2, 1], [1], [1, 1]],
         pcg_chem_weath_array_new := [[0, 0, 0], [1, 1, 1, 1], [0, 0], [0, 0, 1]],
         interface_counts_matrix := [[2, 2], [3, 1]],
         negative_volume_thresholds := [[0, 0], [1, 1], [2, 2], [3, 3]],
         volume_bins_medians_matrix := replicate 4 (replicate 2 [1, 2, 4, 8]),
         volume_change_matrix := replicate 4 (replicate 2 [1 / 2, 1 / 2, 1, 1]) \<rparr>"

section \<open>The weathering loop on a store\<close>

text \<open>
  \<open>weathering\<close> starts with \<open>self = self if inplace else copy.copy(self)\<close>. A shallow copy
  is a new object whose attributes refer to the same arrays, so the model separates the
  object (attribute values and references) from the store of the arrays that the run
  updates in place. An attribute assignment \<open>self.x = ...\<close> rebinds the attribute of the
  object at hand; an item assignment \<open>self.x[i] = ...\<close>, an augmented item assignment and
  \<open>list.append\<close> change the array in the store.
\<close>

record heap =
  next_addr :: nat
  grains_at :: "nat \<Rightarrow> uint32 list list list"
  counts_at :: "nat \<Rightarrow> int list list"
  rows_at :: "nat \<Rightarrow> real list list"
  count_rows_at :: "nat \<Rightarrow> nat list list"
  series_at :: "nat \<Rightarrow> int list"
  cubes_at :: "nat \<Rightarrow> nat list list list"
  snapshots_at :: "nat \<Rightarrow> nat list list list"

text \<open>
  The object. \<open>attrs\<close> holds the attributes that are only ever rebound; of its fields
  \<open>mcg\<close> and \<open>interface_counts_matrix\<close> the methods see the arrays at \<open>mcg_ref\<close> and
  \<open>counts_ref\<close> instead (\<open>view\<close>). The evolution arrays are allocated by
  \<open>ModelEvolutionMixin\<close>, outside this file; their contents are parameters.
\<close>

record pyobject =
  attrs :: sedgen
  pcg_chem_residue :: "real list"
  mcg_chem_residue :: "real list"
  mcg_ref :: nat
  counts_ref :: nat
  residue_ref :: nat
  residue_count_ref :: nat
  mcg_broken_additions_ref :: nat
  residue_additions_ref :: nat
  residue_count_additions_ref :: nat
  pcg_additions_ref :: nat
  mcg_additions_ref :: nat
  pcg_comp_evolution_ref :: nat
  pcg_size_evolution_ref :: nat
  pcg_chem_residue_additions_ref :: nat
  mcg_chem_residue_additions_ref :: nat
  mcg_evolution_ref :: nat

definition view :: "heap \<Rightarrow> pyobject \<Rightarrow> sedgen" where
  "view h self =
     (attrs self)\<lparr> mcg := grains_at h (mcg_ref self),
                   interface_counts_matrix := counts_at h (counts_ref self) \<rparr>"

definition copy_copy :: "pyobject \<Rightarrow> pyobject" where
  \<comment> \<open>\<open>copy.copy(self)\<close>: the same attribute values and the same references\<close>
  "copy_copy self = self"

text \<open>
  Two objects share their arrays when all their references agree, but for \<open>mcg_ref\<close> and
  \<open>counts_ref\<close>, which the run rebinds. The arrays of an object are separate when no two
  attributes of the same array type refer to the same array.
\<close>

definition same_arrays :: "pyobject \<Rightarrow> pyobject \<Rightarrow> bool" where
  "same_arrays a b \<longleftrightarrow>
     residue_ref a = residue_ref b \<and> residue_count_ref a = residue_count_ref b
     \<and> mcg_broken_additions_ref a = mcg_broken_additions_ref b
     \<and> residue_additions_ref a = residue_additions_ref b
     \<and> residue_count_additions_ref a = residue_count_additions_ref b
     \<and> pcg_additions_ref a = pcg_additions_ref b
     \<and> mcg_additions_ref a = mcg_additions_ref b
     \<and> pcg_comp_evolution_ref a = pcg_comp_evolution_ref b
     \<and> pcg_size_evolution_ref a = pcg_size_evolution_ref b
     \<and> pcg_chem_residue_additions_ref a = pcg_chem_residue_additions_ref b
     \<and> mcg_chem_residue_additions_ref a = mcg_chem_residue_additions_ref b
     \<and> mcg_evolution_ref a = mcg_evolution_ref b"


definition new_grains :: "heap \<Rightarrow> uint32 list list list \<Rightarrow> heap \<times> nat" where
  \<comment> \<open>a fresh array, as made by \<open>.copy()\<close>, \<open>np.roll\<close> or \<open>np.zeros\<close>\<close>
  "new_grains h a =
     (h\<lparr>next_addr := Suc (next_addr h), grains_at := (grains_at h)(next_addr h := a)\<rparr>,
      next_addr h)"

definition new_counts :: "heap \<Rightarrow> int list list \<Rightarrow> heap \<times> nat" where
  "new_counts h a =
     (h\<lparr>next_addr := Suc (next_addr h), counts_at := (counts_at h)(next_addr h := a)\<rparr>,
      next_addr h)"

definition set_item :: "'a list \<Rightarrow> nat \<Rightarrow> 'a \<Rightarrow> py_error + 'a list" where
  \<comment> \<open>\<open>a[step] = v\<close>\<close>
  "set_item a step v = (if step < length a then Inr (a[step := v]) else Inl IndexError)"

definition set_row :: "'a list list \<Rightarrow> nat \<Rightarrow> 'a list \<Rightarrow> py_error + 'a list list" where
  \<comment> \<open>\<open>a[step] = v\<close> for a row: \<open>v\<close> has the length of the row, or length 1\<close>
  "set_row a step v =
     (if step < length a then
        if length v = length (a ! step) then Inr (a[step := v])
        else if length v = 1 then Inr (a[step := replicate (length (a ! step)) (hd v)])
        else Inl ValueError
      else Inl IndexError)"

datatype signal = Next | Break | Return

text \<open>
  The state of the loop: the store, the object \<open>self\<close>, the local \<open>mcg_broken\<close> and the
  warnings emitted so far.
\<close>

record run_state =
  rs_heap :: heap
  rs_self :: pyobject
  rs_mcg_broken :: "uint32 list list list"
  rs_warnings :: "string list"

definition op_intra_cb :: "nat \<Rightarrow> run_state \<Rightarrow> py_error + run_state" where
  \<comment> \<open>\<open>mcg_broken, residue, residue_count = self.intra_crystal_breakage_binned(alternator=step)\<close>,
      \<open>self.mcg = mcg_broken.copy()\<close>, \<open>self.residue[step] = residue\<close>,
      \<open>self.residue_count[step] = residue_count\<close>\<close>
  "op_intra_cb step st =
     (let h = rs_heap st; self = rs_self st in
      bindE (intra_crystal_breakage_binned (view h self) (int step) 5)
        (\<lambda>(mcg_broken, residue, residue_count).
      case new_grains h mcg_broken of (h, a) \<Rightarrow>
      let self = self\<lparr>mcg_ref := a\<rparr> in
      bindE (set_row (rows_at h (residue_ref self)) step residue) (\<lambda>residue_array.
      bindE (set_row (count_rows_at h (residue_count_ref self)) step residue_count)
        (\<lambda>residue_count_array.
        Inr (st\<lparr> rs_heap := h\<lparr> rows_at := (rows_at h)(residue_ref self := residue_array),
                              count_rows_at := (count_rows_at h)
                                (residue_count_ref self := residue_count_array) \<rparr>,
                 rs_self := self, rs_mcg_broken := mcg_broken \<rparr>)))))"

definition op_inter_cb ::
  "(nat \<Rightarrow> nat \<Rightarrow> real) \<Rightarrow> nat \<Rightarrow> run_state \<Rightarrow> py_error + (run_state \<times> signal)" where
  \<comment> \<open>the five attributes are rebound to the results of \<open>self.inter_crystal_breakage(step)\<close>,
      which has decremented \<open>self.interface_counts_matrix\<close> in place; the method returns
      from \<open>weathering\<close> when no pcg is left\<close>
  "op_inter_cb c step st =
     (let h = rs_heap st; self = rs_self st in
      bindE (inter_crystal_breakage (view h self) (c step))
        (\<lambda>(pcgs, csizes, probs, chems, mcg_new, counts).
      let h = h\<lparr>counts_at := (counts_at h)(counts_ref self := counts)\<rparr> in
      case new_grains h mcg_new of (h, a) \<Rightarrow>
      let self = self\<lparr> attrs := (attrs self)\<lparr> pcgs_new := pcgs,
                                               crystal_size_array_new := csizes,
                                               interface_constant_prob_new := probs,
                                               pcg_chem_weath_array_new := chems \<rparr>,
                        mcg_ref := a \<rparr>
      in Inr (st\<lparr>rs_heap := h, rs_self := self\<rparr>, if pcgs = [] then Return else Next)))"

definition op_chem_mcg :: "run_state \<Rightarrow> py_error + run_state" where
  \<comment> \<open>\<open>self.mcg, self.mcg_chem_residue = self.chemical_weathering_mcg()\<close>\<close>
  "op_chem_mcg st =
     (let h = rs_heap st; self = rs_self st in
      bindE (chemical_weathering_mcg (view h self) 1) (\<lambda>(mcg_new, residue, warns).
      case new_grains h mcg_new of (h, a) \<Rightarrow>
        Inr (st\<lparr> rs_heap := h, rs_self := self\<lparr>mcg_ref := a, mcg_chem_residue := residue\<rparr>,
                 rs_warnings := rs_warnings st @ warns \<rparr>)))"

definition op_chem_pcg :: "general \<Rightarrow> nat \<Rightarrow> run_state \<Rightarrow> py_error + run_state" where
  \<comment> \<open>skipped at step 0; otherwise the attributes are rebound to the results of
      \<open>self.chemical_weathering_pcg()\<close>, \<open>self.interface_counts_matrix\<close> to the new matrix,
      and the method has added the single crystals to \<open>self.mcg\<close> in place\<close>
  "op_chem_pcg gen step st =
     (if step = 0 then Inr st
      else
      let h = rs_heap st; self = rs_self st in
      bindE (chemical_weathering_pcg gen (view h self))
        (\<lambda>(pcgs, csizes, probs, chems, residue, counts, mcg_updated).
      let h = h\<lparr>grains_at := (grains_at h)(mcg_ref self := mcg_updated)\<rparr> in
      case new_counts h counts of (h, a) \<Rightarrow>
      let self = self\<lparr> attrs := (attrs self)\<lparr> pcgs_new := pcgs,
                                               crystal_size_array_new := csizes,
                                               interface_constant_prob_new := probs,
                                               pcg_chem_weath_array_new := chems \<rparr>,
                        pcg_chem_residue := residue, counts_ref := a \<rparr>
      in Inr (st\<lparr>rs_heap := h, rs_self := self\<rparr>)))"

fun perform_operations ::
  "general \<Rightarrow> (nat \<Rightarrow> nat \<Rightarrow> real) \<Rightarrow> nat \<Rightarrow> string list \<Rightarrow> run_state \<Rightarrow>
   py_error + (run_state \<times> signal)" where
  "perform_operations gen c step [] st = Inr (st, Next)"
| "perform_operations gen c step (operation # rest) st =
     (if operation = ''intra_cb'' then
        bindE (op_intra_cb step st) (perform_operations gen c step rest)
      else if operation = ''inter_cb'' then
        bindE (op_inter_cb c step st) (\<lambda>(st, sig).
          if sig = Return then Inr (st, Return) else perform_operations gen c step rest st)
      else if operation = ''chem_mcg'' then
        bindE (op_chem_mcg st) (perform_operations gen c step rest)
      else if operation = ''chem_pcg'' then
        bindE (op_chem_pcg gen step st) (perform_operations gen c step rest)
      else perform_operations gen c step rest st)"

text \<open>
  The tracking block at the end of a timestep, with \<open>display_mass_balance\<close> off:
  \<^verbatim>\<open>
  self.mcg_broken_additions[step] = np.sum([np.sum(x) for x in mcg_broken])
  self.residue_additions[step] = self.residue[step]
  self.residue_count_additions[step] = \
      np.sum(self.residue_count) - np.sum(self.residue_count_additions)
  self.pcg_additions[step] = len(self.pcgs_new)
  self.mcg_additions[step] = np.sum(self.mcg)
  self.pcg_comp_evolution.append(self.pcgs_new)
  self.pcg_size_evolution.append(self.crystal_size_array_new)
  self.pcg_chem_residue_additions[step] = self.pcg_chem_residue
  self.mcg_chem_residue_additions[step] = self.mcg_chem_residue
  self.mcg_evolution[step] = np.sum(self.mcg, axis=0)
  \<close>
\<close>

definition grains_total :: "uint32 list list list \<Rightarrow> int" where
  "grains_total a = sum_list (map (\<lambda>plane. sum_list (map (\<lambda>row. sum_list (map uint row)) plane)) a)"

definition grains_per_bin :: "uint32 list list list \<Rightarrow> nat list list" where
  \<comment> \<open>\<open>np.sum(a, axis=0)\<close> of a rectangular array\<close>
  "grains_per_bin a =
     (case a of [] \<Rightarrow> []
      | p # _ \<Rightarrow> map (\<lambda>m. map (\<lambda>k. sum_list (map (\<lambda>plane. unat (plane ! m ! k)) a))
                          [0..<length (p ! m)]) [0..<length p])"

definition track_evolution :: "nat \<Rightarrow> run_state \<Rightarrow> py_error + run_state" where
  "track_evolution step st =
     (let h = rs_heap st; self = rs_self st; model = view h self in
      bindE (set_item (series_at h (mcg_broken_additions_ref self)) step
               (grains_total (rs_mcg_broken st))) (\<lambda>mcg_broken_additions.
      let h = h\<lparr>series_at := (series_at h)(mcg_broken_additions_ref self := mcg_broken_additions)\<rparr> in
      bindE (nth_err (rows_at h (residue_ref self)) step) (\<lambda>residue_row.
      bindE (set_row (rows_at h (residue_additions_ref self)) step residue_row)
        (\<lambda>residue_additions.
      let h = h\<lparr>rows_at := (rows_at h)(residue_additions_ref self := residue_additions)\<rparr> in
      bindE (set_item (series_at h (residue_count_additions_ref self)) step
               (int (sum_list (map sum_list (count_rows_at h (residue_count_ref self))))
                - sum_list (series_at h (residue_count_additions_ref self))))
        (\<lambda>residue_count_additions.
      let h = h\<lparr>series_at :=
                    (series_at h)(residue_count_additions_ref self := residue_count_additions)\<rparr> in
      bindE (set_item (series_at h (pcg_additions_ref self)) step (int (length (pcgs_new model))))
        (\<lambda>pcg_additions.
      let h = h\<lparr>series_at := (series_at h)(pcg_additions_ref self := pcg_additions)\<rparr> in
      bindE (set_item (series_at h (mcg_additions_ref self)) step (grains_total (mcg model)))
        (\<lambda>mcg_additions.
      let h = h\<lparr>series_at := (series_at h)(mcg_additions_ref self := mcg_additions),
                 snapshots_at := (snapshots_at h)
                   (pcg_comp_evolution_ref self :=
                      snapshots_at h (pcg_comp_evolution_ref self) @ [pcgs_new model])\<rparr>;
          h = h\<lparr>snapshots_at := (snapshots_at h)
                   (pcg_size_evolution_ref self :=
                      snapshots_at h (pcg_size_evolution_ref self)
                        @ [crystal_size_array_new model])\<rparr> in
      bindE (set_row (rows_at h (pcg_chem_residue_additions_ref self)) step
               (pcg_chem_residue self)) (\<lambda>pcg_chem_residue_additions.
      let h = h\<lparr>rows_at := (rows_at h)
                   (pcg_chem_residue_additions_ref self := pcg_chem_residue_additions)\<rparr> in
      bindE (set_row (rows_at h (mcg_chem_residue_additions_ref self)) step
               (mcg_chem_residue self)) (\<lambda>mcg_chem_residue_additions.
      let h = h\<lparr>rows_at := (rows_at h)
                   (mcg_chem_residue_additions_ref self := mcg_chem_residue_additions)\<rparr> in
      bindE (set_item (cubes_at h (mcg_evolution_ref self)) step (grains_per_bin (mcg model)))
        (\<lambda>mcg_evolution.
      let h = h\<lparr>cubes_at := (cubes_at h)(mcg_evolution_ref self := mcg_evolution)\<rparr>
      in Inr (st\<lparr>rs_heap := h\<rparr>)))))))))))"

fun weathering_steps ::
  "general \<Rightarrow> (nat \<Rightarrow> nat \<Rightarrow> real) \<Rightarrow> string list \<Rightarrow> nat list \<Rightarrow> run_state \<Rightarrow>
   py_error + (run_state \<times> signal)" where
  "weathering_steps gen c operations [] st = Inr (st, Next)"
| "weathering_steps gen c operations (step # rest) st =
     bindE (perform_operations gen c step operations st) (\<lambda>(st, sig).
       if sig = Return then Inr (st, Return)
       else bindE (track_evolution step st) (\<lambda>st.
         if pcgs_new (attrs (rs_self st)) = [] then Inr (st, Break)
         else weathering_steps gen c operations rest st))"

text \<open>
  \<^verbatim>\<open>
  def weathering(self, operations=[...], display_mass_balance=False,
                 display_mcg_sums=False, timesteps=None, timed=False, inplace=False):
      self = self if inplace else copy.copy(self)
      if not timesteps:
          timesteps = self.n_timesteps
      mcg_broken = np.zeros_like(self.mcg)
      for step in range(timesteps):
          ...
      return self
  \<close>
  The display and timing flags are off. The result holds the store after the call, the
  object the caller still holds under the name it called the method on, the object the
  method worked on, the warnings, and whether the call returned from inside the loop.
\<close>

record weathering_result =
  wr_heap :: heap
  wr_original :: pyobject
  wr_self :: pyobject
  wr_warnings :: "string list"
  wr_early :: bool

definition timesteps_or_default :: "pyobject \<Rightarrow> nat option \<Rightarrow> nat" where
  \<comment> \<open>\<open>if not timesteps: timesteps = self.n_timesteps\<close>\<close>
  "timesteps_or_default self timesteps =
     (case timesteps of None \<Rightarrow> n_timesteps (attrs self)
      | Some t \<Rightarrow> if t = 0 then n_timesteps (attrs self) else t)"

definition weathering ::
  "general \<Rightarrow> (nat \<Rightarrow> nat \<Rightarrow> real) \<Rightarrow> heap \<Rightarrow> pyobject \<Rightarrow> string list \<Rightarrow> nat option \<Rightarrow> bool \<Rightarrow>
   py_error + weathering_result" where
  "weathering gen c h original operations timesteps inplace =
     (let self = (if inplace then original else copy_copy original);
          timesteps = timesteps_or_default self timesteps;
          mcg_broken = map (map (\<lambda>row. replicate (length row) 0)) (grains_at h (mcg_ref self))
      in bindE (weathering_steps gen c operations [0..<timesteps]
                  \<lparr> rs_heap = h, rs_self = self, rs_mcg_broken = mcg_broken, rs_warnings = [] \<rparr>)
           (\<lambda>(st, sig).
              Inr \<lparr> wr_heap = rs_heap st,
                    wr_original = (if inplace then rs_self st else original),
                    wr_self = rs_self st,
                    wr_warnings = rs_warnings st,
                    wr_early = (sig = Return) \<rparr>))"

text \<open>
  A store and an object for the example state of the breakage section: one array per
  reference, the evolution arrays with room for three steps.
\<close>

definition example_attrs :: sedgen where
  "example_attrs =
     \<lparr> minerals = [''Q'', ''P''], n_minerals = 2, n_timesteps = 3, n_bins = 8,
       n_standard_cases = 3, enable_interface_location_prob = True,
       enable_multi_pcg_breakage = False, intra_cb_p = [1 / 2, 1 / 2], minerals_N = [4, 3],
       interface_array = [0, 1, 0, 1, 1, 0, 0], interface_counts_matrix = [],
       interface_proportions_normalized = [[1 / 2, 1 / 2], [1 / 2, 1 / 2]],
       mcg = [],
       pcgs_new = [[0, 1, 0], [1, 1, 0, 0]],
       crystal_size_array_new = [[3, 2, 1], [0, 1, 2, 3]],
       interface_constant_prob_new = [[1, 1], [1, 2, 1]],
       pcg_chem_weath_array_new = [[0, 0, 0], [0, 0, 0, 0]],
       intra_cb_threshold_bin_matrix = replicate 3 [0, 0],
       search_volume_bins_medians_matrix = replicate 2 (replicate 3 (replicate 16 1)),
       intra_cb_breaks_matrix = replicate 2 (replicate 3 (replicate 8 [0, 1])),
       diffs_volumes_matrix = replicate 3 (replicate 2 (replicate 8 [1 / 4, 1 / 2])),
       negative_volume_thresholds = [[0, 0], [1, 1], [2, 2], [3, 3]],
       volume_bins_medians_matrix = replicate 3 (replicate 2 [1, 2, 4, 8, 16, 32, 64, 128]),
       volume_change_matrix = replicate 2 (replicate 2 (replicate 8 (1 / 2))) \<rparr>"

definition example_heap :: heap where
  "example_heap =
     \<lparr> next_addr = 20,
       grains_at = (\<lambda>a. if a = 0 then [[[0, 0, 0, 0, 0, 0, 0, 3], replicate 8 0],
                                       replicate 2 (replicate 8 0),
                                       replicate 2 (replicate 8 0)] else []),
       counts_at = (\<lambda>a. if a = 1 then [[1, 1], [2, 1]] else []),
       rows_at = (\<lambda>a. if a \<in> {2, 5, 11, 12} then replicate 3 [0, 0] else []),
       count_rows_at = (\<lambda>a. if a = 3 then replicate 3 [0, 0] else []),
       series_at = (\<lambda>a. if a \<in> {4, 6, 7, 8} then [0, 0, 0] else []),
       cubes_at = (\<lambda>a. if a = 13 then replicate 3 [] else []),
       snapshots_at = (\<lambda>a. []) \<rparr>"

definition example_instance :: pyobject where
  "example_instance =
     \<lparr> attrs = example_attrs,
       pcg_chem_residue = [0, 0], mcg_chem_residue = [0, 0],
       mcg_ref = 0, counts_ref = 1, residue_ref = 2, residue_count_ref = 3,
       mcg_broken_additions_ref = 4, residue_additions_ref = 5,
       residue_count_additions_ref = 6, pcg_additions_ref = 7, mcg_additions_ref = 8,
       pcg_comp_evolution_ref = 9, pcg_size_evolution_ref = 10,
       pcg_chem_residue_additions_ref = 11, mcg_chem_residue_additions_ref = 12,
       mcg_evolution_ref = 13 \<rparr>"

section \<open>Facts about the building blocks\<close>

lemma bindE_Inr_iff: "bindE r f = Inr y \<longleftrightarrow> (\<exists>x. r = Inr x \<and> f x = Inr y)"
  by (cases r) (simp_all add: bindE_def)

lemma bindE_Inr [simp]: "bindE (Inr x) f = f x"
  by (simp add: bindE_def)

lemma bindE_Inl [simp]: "bindE (Inl e) f = Inl e"
  by (simp add: bindE_def)

lemma mapE_Inr_all2: "mapE f xs = Inr ys \<Longrightarrow> list_all2 (\<lambda>x y. f x = Inr y) xs ys"
proof (induction xs arbitrary: ys)
  case Nil
  then show ?case by simp
next
  case (Cons x xs)
  from Cons.prems obtain y ys' where "f x = Inr y" "mapE f xs = Inr ys'" "ys = y # ys'"
    by (auto simp: bindE_Inr_iff)
  with Cons.IH show ?case
    by simp
qed

lemma mapE_Inr_length: "mapE f xs = Inr ys \<Longrightarrow> length ys = length xs"
  by (drule mapE_Inr_all2) (simp add: list_all2_lengthD)

lemma mapE_Inr_set:
  assumes "mapE f xs = Inr ys" and "y \<in> set ys"
  shows "\<exists>x \<in> set xs. f x = Inr y"
proof -
  from assms(1) have all2: "list_all2 (\<lambda>x y. f x = Inr y) xs ys"
    by (rule mapE_Inr_all2)
  from assms(2) obtain i where i: "i < length ys" "ys ! i = y"
    by (auto simp: in_set_conv_nth)
  with all2 have "f (xs ! i) = Inr y" and "i < length xs"
    by (auto simp: list_all2_conv_all_nth)
  then show ?thesis
    by (auto intro: bexI [of _ "xs ! i"])
qed

section \<open>Properties of the location weights\<close>

lemma slice_back_all: "slice_back (- 1) xs = rev xs"
  by (cases xs) (simp_all add: slice_back_def Let_def)

lemma slice_back_butlast: "slice_back (- 2) xs = rev (butlast xs)"
proof (cases "length xs \<ge> 2")
  case True
  then have "nat (int (length xs) - 1) = length xs - 1" by simp
  with True show ?thesis
    by (simp add: slice_back_def Let_def butlast_conv_take)
next
  case False
  then have "xs = [] \<or> (\<exists>x. xs = [x])"
    by (cases xs) (auto simp: not_le Suc_le_eq)
  then show ?thesis by (auto simp: slice_back_def)
qed

lemma butlast_arange_down: "butlast (arange_down s) = rev [2..<Suc s]"
proof -
  have "butlast (rev [1..<Suc s]) = rev (tl [1..<Suc s])"
    by (simp add: butlast_rev)
  also have "tl [1..<Suc s] = [2..<Suc s]"
    by (cases s) (simp_all add: upt_rec [of 1] numeral_2_eq_2)
  finally show ?thesis by (simp add: arange_down_def)
qed

lemma upt_one_Cons: "0 < s \<Longrightarrow> [1..<Suc s] = 1 # [2..<Suc s]"
  by (simp add: upt_conv_Cons numeral_2_eq_2 del: upt_Suc)

lemma create_interface_location_prob_even:
  "even (length a) \<Longrightarrow>
   create_interface_location_prob a =
     rev [1..<Suc (length a div 2)] @ [2..<Suc (length a div 2)]"
  by (simp add: create_interface_location_prob_def Let_def slice_back_butlast
      butlast_arange_down even_iff_mod_2_eq_zero) (simp add: arange_down_def)

lemma create_interface_location_prob_odd:
  "odd (length a) \<Longrightarrow>
   create_interface_location_prob a =
     rev [1..<Suc (length a div 2)] @ [1..<Suc (length a div 2)]"
  by (simp add: create_interface_location_prob_def Let_def slice_back_all
      odd_iff_mod_2_eq_one arange_down_def)

text \<open>
  C8: for every pcg length (in particular every \<open>n \<ge> 2\<close>, even or odd) the array
  returned by \<open>create_interface_location_prob\<close> equals its own reverse.
\<close>

theorem create_interface_location_prob_palindrome:
  "rev (create_interface_location_prob a) = create_interface_location_prob a"
proof (cases "even (length a)")
  case True
  show ?thesis
  proof (cases "length a div 2")
    case 0
    with True show ?thesis
      by (simp add: create_interface_location_prob_even)
  next
    case (Suc k)
    then have "[1..<Suc (length a div 2)] = 1 # [2..<Suc (length a div 2)]"
      by (intro upt_one_Cons) simp
    with True show ?thesis
      by (simp add: create_interface_location_prob_even del: upt_Suc)
  qed
next
  case False
  then show ?thesis
    by (simp add: create_interface_location_prob_odd)
qed

text \<open>
  C7 (as amended): for every pcg length \<open>n \<ge> 2\<close> the weight array has \<open>n - 1\<close> entries
  and equals \<open>n div 2, n div 2 - 1, ..., 1\<close>, followed by one more \<open>1\<close> when \<open>n\<close> is
  odd, followed by \<open>2, 3, ..., n div 2\<close>: the ascending half starts at 2, not at 1.
\<close>

theorem create_interface_location_prob_ramp:
  assumes "2 \<le> length a"
  shows "create_interface_location_prob a =
           rev [1..<Suc (length a div 2)] @ (if odd (length a) then [1] else [])
             @ [2..<Suc (length a div 2)]
         \<and> length (create_interface_location_prob a) = length a - 1"
proof (cases "even (length a)")
  case True
  then obtain k where k: "length a = 2 * k"
    by (auto elim!: evenE)
  with assms have "0 < k" by simp
  with True k show ?thesis
    by (simp add: create_interface_location_prob_even del: upt_Suc)
next
  case False
  from assms have pos: "0 < length a div 2" by simp
  then have "[1..<Suc (length a div 2)] = 1 # [2..<Suc (length a div 2)]"
    by (intro upt_one_Cons)
  moreover have "length a div 2 + length a div 2 = length a - Suc 0"
    using False by (auto elim!: oddE)
  ultimately show ?thesis
    using False pos by (simp add: create_interface_location_prob_odd del: upt_Suc)
qed

theorem create_interface_location_prob_ramp_witness:
  "create_interface_location_prob [0, 1, 2, 3, 4 :: nat] = [2, 1, 1, 2]
   \<and> create_interface_location_prob [0, 1, 2, 3 :: nat] = [2, 1, 2]"
proof -
  have "[1..<Suc 2] = [1, 2]" "[2..<Suc 2] = [2]"
    by (simp_all add: upt_rec [of _ "Suc 2"] upt_rec [of _ "Suc (Suc 0)"] numeral_2_eq_2)
  then show ?thesis
    using create_interface_location_prob_ramp [of "[0, 1, 2, 3, 4 :: nat]"]
      create_interface_location_prob_ramp [of "[0, 1, 2, 3 :: nat]"]
    by simp
qed

text \<open>
  The sequence as the specification words it has \<open>n\<close> entries, one more than there are
  interfaces: for a pcg of two crystals the code returns the single weight \<open>1\<close>.
\<close>

theorem create_interface_location_prob_spec_counterexample:
  "create_interface_location_prob [0, 1 :: nat] = [1]
   \<and> spec_location_weights (length [0, 1 :: nat]) = [1, 1]"
  by (simp add: create_interface_location_prob_def spec_location_weights_def
      arange_down_def slice_back_def)

section \<open>Properties of intra-crystal breakage\<close>

lemma mcg_selected_parity:
  "mcg_selected (alternator mod 2) p xs =
     map (\<lambda>c. word_of_int (if odd alternator then \<lfloor>real (unat c) * p\<rfloor>
                            else \<lceil>real (unat c) * p\<rceil>)) xs"
  by (auto simp: mcg_selected_def odd_iff_mod_2_eq_one)

lemma perform_intra_crystal_breakage_2d_count:
  assumes "perform_intra_crystal_breakage_2d model mcg_old m n thr fl sbc = Inr (m_new, r, c)"
  shows "c = 0"
  using assms
  by (auto simp: perform_intra_crystal_breakage_2d_def Let_def bindE_Inr_iff)

lemma intra_plane_count:
  assumes "intra_plane model alternator sbc n m m_old = Inr (m_new, r, c)"
  shows "c = 0"
  using assms
  by (auto simp: intra_plane_def bindE_Inr_iff split: if_splits
      dest: perform_intra_crystal_breakage_2d_count)

lemma column_sum_zero:
  assumes "\<forall>row \<in> set rows. \<forall>x \<in> set row. x = 0"
  shows "column_sum rows m = 0"
  using assms by (induction rows) (auto simp: column_sum_def)

text \<open>
  C9: the \<open>residue_count\<close> returned by \<open>perform_intra_crystal_breakage_2d\<close> is zero, and so
  is every entry of the per-mineral \<open>residue_count_new\<close> returned by
  \<open>intra_crystal_breakage_binned\<close>, for every model, mineral and alternator, whatever
  breakage took place.
\<close>

theorem intra_residue_count_zero:
  "(perform_intra_crystal_breakage_2d model mcg_old m n thr fl sbc
      = Inr (m_new, residue_add, residue_count_add) \<longrightarrow> residue_count_add = 0)
   \<and> (intra_crystal_breakage_binned model alternator sbc
        = Inr (mcg_new, residue_new, residue_count_new)
      \<longrightarrow> residue_count_new = replicate (n_minerals model) 0)"
proof (intro conjI impI)
  assume "perform_intra_crystal_breakage_2d model mcg_old m n thr fl sbc
            = Inr (m_new, residue_add, residue_count_add)"
  then show "residue_count_add = 0"
    by (rule perform_intra_crystal_breakage_2d_count)
next
  assume run: "intra_crystal_breakage_binned model alternator sbc
                 = Inr (mcg_new, residue_new, residue_count_new)"
  then obtain planes where
    planes: "mapE (\<lambda>n. bindE (nth_err (mcg model) n) (\<lambda>plane.
                 mapE (\<lambda>(m, m_old). intra_plane model alternator sbc n m m_old)
                   (enumerate 0 plane)))
               [0..<n_timesteps model] = Inr planes"
    and counts: "residue_count_new =
                   map (column_sum (map (map (\<lambda>r. unat (snd (snd r)))) planes))
                     [0..<n_minerals model]"
    by (auto simp: intra_crystal_breakage_binned_def bindE_Inr_iff Let_def)
  have zero: "snd (snd r) = 0" if "row \<in> set planes" "r \<in> set row" for row r
  proof -
    from mapE_Inr_set [OF planes that(1)] obtain n plane where
      "mapE (\<lambda>(m, m_old). intra_plane model alternator sbc n m m_old) (enumerate 0 plane)
         = Inr row"
      by (auto simp: bindE_Inr_iff)
    from mapE_Inr_set [OF this that(2)] obtain m m_old where
      "intra_plane model alternator sbc n m m_old = Inr r"
      by auto
    then show ?thesis
      using intra_plane_count [of model alternator sbc n m m_old "fst r" "fst (snd r)" "snd (snd r)"]
      by simp
  qed
  have "column_sum (map (map (\<lambda>r. unat (snd (snd r)))) planes) m = 0" for m
    by (rule column_sum_zero) (auto simp: zero)
  then have "column_sum (map (map (\<lambda>r. unat (snd (snd r)))) planes) = (\<lambda>m. 0)"
    by (rule ext)
  with counts show "residue_count_new = replicate (n_minerals model) 0"
    by (simp add: map_replicate_const)
qed

text \<open>
  In the example model an odd step breaks one grain of the top bin, half a unit of residue
  volume is accrued, and the count stays zero.
\<close>

theorem intra_residue_count_zero_witness:
  "intra_crystal_breakage_binned intra_example 1 5
     = Inr ([[[0, 0, 0, 0, 1, 1, 0, 2]]], [1 / 2], replicate (n_minerals intra_example) 0)"
proof -
  have run: "intra_crystal_breakage_binned intra_example 1 5
               = Inr ([[[0, 0, 0, 0, 1, 1, 0, 2]]], [1 / 2], [0])"
    by code_simp
  with intra_residue_count_zero
         [where model = intra_example and alternator = 1 and sbc = 5
            and mcg_new = "[[[0, 0, 0, 0, 1, 1, 0, 2]]]" and residue_new = "[1 / 2]"
            and residue_count_new = "[0]"]
  show ?thesis by simp
qed

text \<open>
  C1, evaluated at step 0 (an even step): of the three grains in the top bin, with
  \<open>intra_cb_p = 1/2\<close>, the code selects \<open>\<lceil>3/2\<rceil> = 2\<close> grains, not \<open>\<lfloor>3/2\<rfloor> = 1\<close>: the bin
  keeps one grain. The caller passes \<open>floor=alternator % 2\<close>, which is false on even steps,
  so the branch commented "2nd time selection" runs first.
\<close>

theorem intra_selection_even_step_is_ceiling:
  "mcg_selected (0 mod 2) (1 / 2) [0, 0, 0, 0, 0, 0, 0, 3] = [0, 0, 0, 0, 0, 0, 0, 2]
   \<and> intra_crystal_breakage_binned intra_example 0 5
       = Inr ([[[0, 0, 0, 0, 1, 1, 2, 1]]], [3 / 4], [0])"
  by code_simp

section \<open>Properties of the chemical weathering of mono-crystalline grains\<close>

lemma foldE_invariant:
  assumes "foldE f xs s = Inr s'" and "P s"
    and "\<And>s x s'. x \<in> set xs \<Longrightarrow> P s \<Longrightarrow> f s x = Inr s' \<Longrightarrow> P s'"
  shows "P s'"
  using assms
proof (induction xs arbitrary: s)
  case Nil
  then show ?case by simp
next
  case (Cons x xs)
  from Cons.prems(1) obtain s1 where s1: "f s x = Inr s1" "foldE f xs s1 = Inr s'"
    by (auto simp: bindE_Inr_iff)
  have "P s1"
    using Cons.prems(3) [of x s s1] Cons.prems(2) s1(1) by simp
  with s1(2) show ?case
    by (rule Cons.IH) (use Cons.prems(3) in auto)
qed

lemma length_roll [simp]: "length (roll shift xs) = length xs"
  by (simp add: roll_def)

lemma roll_one_nth:
  assumes "j < length xs"
  shows "roll 1 xs ! j = (if j = 0 then last xs else xs ! (j - 1))"
proof (cases j)
  case 0
  from assms have "0 < int (length xs)" by (cases xs) simp_all
  then have "(- 1) mod int (length xs) = int (length xs) - 1"
    by (rule zmod_minus1)
  with 0 assms show ?thesis
    by (simp add: roll_def last_conv_nth nat_diff_distrib')
next
  case (Suc k)
  with assms have "(int j - 1) mod int (length xs) = int k"
    by simp
  with Suc assms show ?thesis
    by (simp add: roll_def)
qed

lemma roll_one: "xs \<noteq> [] \<Longrightarrow> roll 1 xs = last xs # butlast xs"
  by (rule nth_equalityI) (auto simp: roll_one_nth nth_Cons' nth_butlast)

lemma dissolve_step_frame:
  assumes "dissolve_step model (a, r) (n, m) = Inr (a', r')" and "0 < n"
  shows "length a' = length a \<and> a' ! 0 = a ! 0"
  using assms by (auto simp: dissolve_step_def bindE_Inr_iff)

lemma dissolve_negative_frame:
  assumes "dissolve_negative model a = Inr (d, r)"
  shows "length d = length a \<and> d ! 0 = a ! 0"
proof -
  let ?P = "\<lambda>s. length (fst s) = length a \<and> fst s ! 0 = a ! 0"
  have "?P (d, r)"
  proof (rule foldE_invariant [where P = ?P, OF assms [unfolded dissolve_negative_def]])
    show "?P (a, replicate (n_minerals model) 0)" by simp
  next
    fix s x s'
    assume x: "x \<in> set (concat (map (\<lambda>n. map (Pair n) [0..<n_minerals model])
                              [1..<n_timesteps model]))"
      and P: "?P s" and step: "dissolve_step model s x = Inr s'"
    from x have "0 < fst x" by auto
    with step dissolve_step_frame [of model "fst s" "snd s" "fst x" "snd x" "fst s'" "snd s'"]
    have "length (fst s') = length (fst s) \<and> fst s' ! 0 = fst s ! 0"
      by simp
    with P show "?P s'" by simp
  qed
  then show ?thesis by simp
qed

lemma zeros_like_plane_sum:
  "map (\<lambda>row. replicate (length row) (0 :: uint32)) (map2 (map2 (+)) p p)
     = map (\<lambda>row. replicate (length row) 0) p"
  by (simp add: zip_same_conv_map)

text \<open>
  C6: \<open>chemical_weathering_mcg\<close> rolls the array by one chem-state, the last state
  wrapping into state 0; the dissolution loop leaves state 0 alone. If and only if that
  wrapped plane has a non-zero count, its counts are added to the last state, state 0 is
  zeroed and exactly one warning is emitted; otherwise the array is returned as the loop
  left it and no warning is emitted.
\<close>

theorem chemical_weathering_mcg_fold:
  assumes "chemical_weathering_mcg model 1 = Inr (mcg_new, residue_per_mineral, warns)"
  shows "mcg model \<noteq> []
         \<and> roll 1 (mcg model) = last (mcg model) # butlast (mcg model)
         \<and> (\<exists>d r1. dissolve_negative model (roll 1 (mcg model)) = Inr (d, r1)
              \<and> length d = length (mcg model) \<and> d ! 0 = last (mcg model)
              \<and> (if \<not> all_zero (last (mcg model))
                  then mcg_new =
                         (d[length d - 1 := map2 (map2 (+)) (last d) (last (mcg model))])
                           [0 := map (\<lambda>row. replicate (length row) 0) (last (mcg model))]
                       \<and> warns = [chem_states_warning]
                  else mcg_new = d \<and> warns = []))"
proof -
  from assms obtain d r1 where
    d: "dissolve_negative model (roll 1 (mcg model)) = Inr (d, r1)"
    and slot0: "nth_err d 0 = Inr (d ! 0)"
    and rest: "(if \<not> all_zero (d ! 0) then
                  Inr ((d[length d - 1 := map2 (map2 (+)) (last d) (d ! 0)])
                         [0 := map (\<lambda>row. replicate (length row) 0)
                                 ((d[length d - 1 := map2 (map2 (+)) (last d) (d ! 0)]) ! 0)],
                       residue_per_mineral, [chem_states_warning])
                else Inr (d, residue_per_mineral, []))
               = (Inr (mcg_new, residue_per_mineral, warns)
                   :: py_error + (uint32 list list list \<times> real list \<times> string list))"
    by (auto simp: chemical_weathering_mcg_def Let_def bindE_Inr_iff nth_err_def
        split: if_splits)
  from slot0 have nonempty: "d \<noteq> []"
    by (auto simp: nth_err_def split: if_splits)
  from dissolve_negative_frame [OF d]
  have len: "length d = length (mcg model)" and d0': "d ! 0 = roll 1 (mcg model) ! 0"
    by simp_all
  from nonempty len have ne: "mcg model \<noteq> []" by auto
  with d0' have d0: "d ! 0 = last (mcg model)"
    by (simp add: roll_one)
  have zeros: "map (\<lambda>row. replicate (length row) 0)
                 ((d[length d - 1 := map2 (map2 (+)) (last d) (d ! 0)]) ! 0)
               = map (\<lambda>row. replicate (length row) (0 :: uint32)) (d ! 0)"
  proof (cases "length d = 1")
    case True
    then have "last d = d ! 0" by (simp add: last_conv_nth nonempty)
    with True have "(d[length d - 1 := map2 (map2 (+)) (last d) (d ! 0)]) ! 0
                      = map2 (map2 (+)) (d ! 0) (d ! 0)"
      by simp
    then show ?thesis by (simp only: zeros_like_plane_sum)
  next
    case False
    with nonempty have "length d - 1 \<noteq> 0"
      by (cases d) auto
    then show ?thesis by simp
  qed
  from rest zeros d0 have
    "(if \<not> all_zero (last (mcg model))
      then mcg_new =
             (d[length d - 1 := map2 (map2 (+)) (last d) (last (mcg model))])
               [0 := map (\<lambda>row. replicate (length row) 0) (last (mcg model))]
           \<and> warns = [chem_states_warning]
      else mcg_new = d \<and> warns = [])"
    by (auto split: if_splits)
  with ne d len d0 show ?thesis
    by (auto simp: roll_one)
qed

text \<open>
  In the example model the last chem-state holds grains: they are folded back and the
  warning is emitted. With an empty last chem-state nothing is folded and nothing is warned.
\<close>

theorem chemical_weathering_mcg_fold_witness:
  "chemical_weathering_mcg chem_example 1
     = Inr ([[[0, 0, 0, 0], [0, 0, 0, 0]], [[0, 2, 3, 4], [0, 0, 0, 0]],
             [[0, 0, 8, 6], [0, 9, 0, 0]]], [25, 7], [chem_states_warning])
   \<and> mcg chem_example \<noteq> []
   \<and> \<not> all_zero (last (mcg chem_example))
   \<and> chemical_weathering_mcg
        (chem_example\<lparr>mcg := [[[1, 2, 3, 4], [0, 0, 0, 0]], [[0, 5, 0, 6], [7, 0, 0, 0]],
                               [[0, 0, 0, 0], [0, 0, 0, 0]]]\<rparr>) 1
     = Inr ([[[0, 0, 0, 0], [0, 0, 0, 0]], [[0, 2, 3, 4], [0, 0, 0, 0]],
             [[0, 0, 0, 6], [0, 0, 0, 0]]], [25, 7], [])"
proof -
  have run: "chemical_weathering_mcg chem_example 1
     = Inr ([[[0, 0, 0, 0], [0, 0, 0, 0]], [[0, 2, 3, 4], [0, 0, 0, 0]],
             [[0, 0, 8, 6], [0, 9, 0, 0]]], [25, 7], [chem_states_warning])"
    by code_simp
  have nz: "\<not> all_zero (last (mcg chem_example))"
    by code_simp
  have run2: "chemical_weathering_mcg
        (chem_example\<lparr>mcg := [[[1, 2, 3, 4], [0, 0, 0, 0]], [[0, 5, 0, 6], [7, 0, 0, 0]],
                               [[0, 0, 0, 0], [0, 0, 0, 0]]]\<rparr>) 1
     = Inr ([[[0, 0, 0, 0], [0, 0, 0, 0]], [[0, 2, 3, 4], [0, 0, 0, 0]],
             [[0, 0, 0, 6], [0, 0, 0, 0]]], [25, 7], [])"
    by code_simp
  from chemical_weathering_mcg_fold [OF run] have "mcg chem_example \<noteq> []"
    by simp
  with run nz run2 show ?thesis by simp
qed

section \<open>Properties of the interface array correction\<close>

lemma foldE_steps:
  assumes "foldE f xs s = Inr s'" and "x \<in> set xs"
  shows "\<exists>s1 s2. f s1 x = Inr s2"
  using assms
proof (induction xs arbitrary: s)
  case Nil
  then show ?case by simp
next
  case (Cons y ys)
  from Cons.prems(1) obtain s1 where s1: "f s y = Inr s1" "foldE f ys s1 = Inr s'"
    by (auto simp: bindE_Inr_iff)
  show ?case
  proof (cases "x = y")
    case True
    with s1(1) show ?thesis by blast
  next
    case False
    with Cons.prems(2) have "x \<in> set ys" by simp
    with s1(2) show ?thesis by (rule Cons.IH)
  qed
qed

lemma bcast_Inr_length:
  assumes "bcast f xs ys = Inr zs"
  shows "(length xs = length ys \<or> length xs = 1 \<or> length ys = 1)
         \<and> length zs = (if length xs = length ys then length xs
                         else if length xs = 1 then length ys else length xs)"
  using assms
  by (auto simp: bcast_def dest!: mapE_Inr_length split: if_splits)

lemma interface_array_diff_six:
  assumes "interface_array_diff model = Inr diff"
  shows "length diff = 6 \<and> (length (minerals_N model) = 6 \<or> length (minerals_N model) = 1)"
  using bcast_Inr_length [OF assms [unfolded interface_array_diff_def]]
  by (auto split: if_splits)

text \<open>
  The correction returns only for a model with six minerals: the subtraction needs
  \<open>minerals_N\<close> to broadcast against six counts, and every round of the loop over the six
  differences reads \<open>self.minerals[index]\<close>.
\<close>

lemma perform_interface_array_correction_needs_six:
  assumes "perform_interface_array_correction model = Inr r"
  shows "(length (minerals_N model) = 6 \<or> length (minerals_N model) = 1)
         \<and> 6 \<le> length (minerals model)"
proof -
  from assms obtain diff where
    diff: "interface_array_diff model = Inr diff"
    and loop: "foldE (correct_mineral model) (enumerate 0 diff)
                 (interface_array model, interface_counts_matrix model) = Inr r"
    by (auto simp: perform_interface_array_correction_def bindE_Inr_iff)
  from interface_array_diff_six [OF diff] have len: "length diff = 6"
    and shape: "length (minerals_N model) = 6 \<or> length (minerals_N model) = 1"
    by simp_all
  from len have "(5, diff ! 5) \<in> set (enumerate 0 diff)"
    by (simp add: in_set_enumerate_eq)
  from foldE_steps [OF loop this] obtain s1 s2 where
    "correct_mineral model s1 (5, diff ! 5) = Inr s2"
    by blast
  then have "5 < length (minerals model)"
    by (cases s1) (auto simp: correct_mineral_def bindE_Inr_iff nth_err_def split: if_splits)
  with shape show ?thesis by simp
qed

text \<open>
  C3, evaluated on a two-mineral rock whose interface array already holds \<open>minerals_N\<close>
  crystals of each mineral: the six counts of \<open>range(6)\<close> do not broadcast against the two
  entries of \<open>minerals_N\<close>, and the correction raises \<open>ValueError\<close> instead of returning the
  array.
\<close>

theorem perform_interface_array_correction_two_minerals:
  "perform_interface_array_correction two_minerals = Inl ValueError
   \<and> calculate_actual_minerals_N two_minerals (interface_array two_minerals)
       = minerals_N two_minerals"
  by code_simp

section \<open>Properties of inter-crystal breakage\<close>

lemma length_create_interface_location_prob:
  "length (create_interface_location_prob a) = length a - 1"
proof (cases "even (length a)")
  case True
  then obtain k where "length a = 2 * k" by (auto elim!: evenE)
  with True show ?thesis
    by (simp add: create_interface_location_prob_even del: upt_Suc)
next
  case False
  then obtain k where "length a = 2 * k + 1" by (auto elim!: oddE)
  with False show ?thesis
    by (simp add: create_interface_location_prob_odd del: upt_Suc)
qed

lemma standard_prob_loc_cases_nth:
  assumes "k < n_standard_cases model"
  shows "length (standard_prob_loc_cases model) = n_standard_cases model
         \<and> standard_prob_loc_cases model ! k = create_interface_location_prob [0..<Suc k]"
  using assms by (simp add: standard_prob_loc_cases_def del: upt_Suc)

lemma location_prob_of_length:
  assumes "location_prob_of model pcg = Inr lp" and "1 \<le> length pcg"
  shows "length lp = length pcg - 1"
proof (cases "length pcg \<le> n_standard_cases model")
  case True
  with assms(2) have k: "length pcg - 1 < n_standard_cases model" by simp
  from assms(2) have "nat (int (length pcg) - 1) = length pcg - 1" by simp
  with assms True standard_prob_loc_cases_nth [OF k]
  have "lp = create_interface_location_prob [0..<Suc (length pcg - 1)]"
    by (auto simp: location_prob_of_def getitem_def norm_index_def bindE_Inr_iff
        simp del: upt_Suc split: if_splits)
  then show ?thesis
    by (simp add: length_create_interface_location_prob del: upt_Suc)
next
  case False
  with assms show ?thesis
    by (auto simp: location_prob_of_def length_create_interface_location_prob)
qed

lemma length_cumsum_from [simp]: "length (cumsum_from acc xs) = length xs"
  by (induction xs arbitrary: acc) simp_all

lemma argmax_bool_bound:
  assumes "argmax_bool bs = Inr k"
  shows "k < length bs"
proof -
  from assms have ne: "bs \<noteq> []"
    by (auto simp: argmax_bool_def split: if_splits)
  show ?thesis
  proof (cases "filter (\<lambda>k. bs ! k) [0..<length bs]")
    case Nil
    with assms ne show ?thesis
      by (auto simp: argmax_bool_def)
  next
    case (Cons j js)
    then have "j \<in> set (filter (\<lambda>k. bs ! k) [0..<length bs])" by simp
    then have "j < length bs" by simp
    with assms ne Cons show ?thesis
      by (auto simp: argmax_bool_def)
  qed
qed

lemma select_interface_bound:
  assumes "select_interface i probs c = Inr interface"
  shows "1 \<le> interface \<and> interface \<le> length probs"
  using assms
  by (auto simp: select_interface_def bindE_Inr_iff cumsum_def dest!: argmax_bool_bound)

lemma probability_normalized_length:
  assumes "(if enable_interface_location_prob model then
              bindE (location_prob_of model pcg) (\<lambda>location_prob.
                calculate_normalized_probability location_prob prob)
            else Inr (normalize prob)) = Inr pn"
    and "1 \<le> length pcg" and "length prob = length pcg - 1"
  shows "length pn = length pcg - 1"
proof (cases "enable_interface_location_prob model")
  case True
  with assms(1) obtain lp probability where
    lp: "location_prob_of model pcg = Inr lp"
    and b: "bcast (\<lambda>l p. Inr (real l * p)) lp prob = Inr probability"
    and pn: "pn = map (\<lambda>p. p / sum_list probability) probability"
    by (auto simp: bindE_Inr_iff calculate_normalized_probability_def)
  from location_prob_of_length [OF lp assms(2)] assms(3) have "length lp = length prob"
    by simp
  with bcast_Inr_length [OF b] pn assms(3) show ?thesis
    by simp
next
  case False
  with assms show ?thesis
    by (auto simp: normalize_def)
qed

subsection \<open>With several breaks per pcg enabled, nothing is emitted\<close>

lemma break_pcg_multi:
  assumes "enable_multi_pcg_breakage model" and "break_pcg model c st item = Inr st'"
  shows "st' = st"
  using assms
  by (cases item)
    (auto simp: break_pcg_def multi_break_def bindE_Inr_iff Let_def split: if_splits)

lemma inter_crystal_breakage_loop_multi:
  assumes "enable_multi_pcg_breakage model" and "inter_crystal_breakage_loop model c = Inr st"
  shows "bs_pcgs st = [] \<and> bs_csize st = [] \<and> bs_prob st = [] \<and> bs_chem st = []
         \<and> bs_counts st = interface_counts_matrix model \<and> n_freed (bs_mcg_temp st) = 0"
proof -
  let ?init = "\<lparr> bs_pcgs = [], bs_csize = [], bs_prob = [], bs_chem = [],
         bs_mcg_temp = replicate (n_timesteps model) (replicate (n_minerals model) []),
         bs_counts = interface_counts_matrix model \<rparr>"
  have "st = ?init"
  proof (rule foldE_invariant [where P = "\<lambda>s. s = ?init",
        OF assms(2) [unfolded inter_crystal_breakage_loop_def]])
    show "?init = ?init" ..
  next
    fix s x s'
    assume "s = ?init" and "break_pcg model c s x = Inr s'"
    with break_pcg_multi [OF assms(1), of c s x s'] show "s' = ?init" by simp
  qed
  then show ?thesis
    by (simp add: n_freed_def)
qed

text \<open>
  C2, evaluated with \<open>enable_multi_pcg_breakage\<close> on: both pcgs of the example select
  interface 1, so the claim expects the fragments \<open>[1, 0]\<close> and \<open>[1, 0, 0]\<close> in \<open>pcgs_new\<close>
  and two crystals added to \<open>mcg\<close>, which is what the same call returns with the flag off.
  With the flag on the call returns empty lists and leaves \<open>mcg\<close> and the counts matrix
  as they were. When the selected interface is the last one of its pcg the call raises
  instead, as \<open>probability_normalized[interface]\<close> reads one past the selected entry.
\<close>

theorem inter_crystal_breakage_multi_emits_nothing:
  "inter_crystal_breakage (breakage_example\<lparr>enable_multi_pcg_breakage := True\<rparr>) (\<lambda>i. 1 / 4)
     = Inr ([], [], [], [], mcg breakage_example, interface_counts_matrix breakage_example)
   \<and> inter_crystal_breakage breakage_example (\<lambda>i. 1 / 4)
     = Inr ([[1, 0], [1, 0, 0]], [[2, 1], [1, 2, 3]], [[1], [2, 1]], [[0, 0], [1, 1, 1]],
            [[[0, 0, 0, 1], [0, 0, 0, 0]], [[0, 0, 0, 0], [1, 0, 0, 0]],
             [[0, 0, 0, 0], [0, 0, 0, 0]]],
            [[1, 0], [2, 0]])
   \<and> inter_crystal_breakage (breakage_example\<lparr>enable_multi_pcg_breakage := True\<rparr>) (\<lambda>i. 3 / 4)
     = Inl IndexError"
  by code_simp

subsection \<open>One break per pcg: the invariants are kept\<close>

lemma sum_list_update_int:
  fixes xs :: "int list"
  assumes "k < length xs"
  shows "sum_list (xs[k := v]) = sum_list xs - xs ! k + v"
  using assms
proof (induction xs arbitrary: k)
  case Nil
  then show ?case by simp
next
  case (Cons x xs)
  then show ?case by (cases k) simp_all
qed

lemma matrix_iadd_sum:
  assumes "matrix_iadd a i j delta = Inr a'"
  shows "matrix_sum a' = matrix_sum a + delta"
proof -
  from assms have i: "i < length a" and j: "j < length (a ! i)"
    and a': "a' = a[i := (a ! i)[j := a ! i ! j + delta]]"
    by (auto simp: matrix_iadd_def getitem2_def nth_err_def bindE_Inr_iff split: if_splits)
  have "matrix_sum a' = sum_list ((map sum_list a)[i := sum_list ((a ! i)[j := a ! i ! j + delta])])"
    by (simp add: a' matrix_sum_def map_update)
  also have "\<dots> = sum_list (map sum_list a) - sum_list (a ! i)
                   + sum_list ((a ! i)[j := a ! i ! j + delta])"
    using i by (simp add: sum_list_update_int)
  also have "sum_list ((a ! i)[j := a ! i ! j + delta]) = sum_list (a ! i) + delta"
    using j by (simp add: sum_list_update_int)
  finally show ?thesis
    by (simp add: matrix_sum_def)
qed

lemma sum_list_update_nat:
  fixes xs :: "nat list"
  assumes "k < length xs"
  shows "sum_list (xs[k := xs ! k + v]) = sum_list xs + v"
  using assms
proof (induction xs arbitrary: k)
  case Nil
  then show ?case by simp
next
  case (Cons x xs)
  then show ?case by (cases k) simp_all
qed

lemma mcg_temp_append_freed:
  assumes "mcg_temp_append t n m k = Inr t'"
  shows "n_freed t' = Suc (n_freed t)"
proof -
  let ?f = "\<lambda>outer. sum_list (map length outer)"
  from assms have n: "n < length t" and m: "m < length (t ! n)"
    and t': "t' = t[n := (t ! n)[m := t ! n ! m @ [k]]]"
    by (auto simp: mcg_temp_append_def getitem2_def nth_err_def bindE_Inr_iff split: if_splits)
  have inner: "sum_list ((map length (t ! n))[m := Suc (length (t ! n ! m))])
                 = Suc (sum_list (map length (t ! n)))"
    using m sum_list_update_nat [of m "map length (t ! n)" 1]
    by simp
  have "n_freed t' = sum_list ((map ?f t)[n := map ?f t ! n + 1])"
    using n by (simp add: t' n_freed_def map_update inner)
  also have "\<dots> = sum_list (map ?f t) + 1"
    using n by (intro sum_list_update_nat) simp
  finally show ?thesis
    by (simp add: n_freed_def)
qed

lemma free_crystal_frame:
  assumes "free_crystal st pcg csize chem j = Inr st'"
  shows "bs_pcgs st' = bs_pcgs st \<and> bs_prob st' = bs_prob st \<and> bs_csize st' = bs_csize st
         \<and> bs_chem st' = bs_chem st \<and> bs_counts st' = bs_counts st
         \<and> n_freed (bs_mcg_temp st') = Suc (n_freed (bs_mcg_temp st))"
  using assms
  by (auto simp: free_crystal_def bindE_Inr_iff dest: mcg_temp_append_freed)

lemma pcg_invariant_snoc:
  "pcg_invariant (pcgs @ [pcg]) (probs @ [prob]) \<longleftrightarrow>
     pcg_invariant pcgs probs \<and> 2 \<le> length pcg \<and> length prob = length pcg - 1"
proof
  assume "pcg_invariant (pcgs @ [pcg]) (probs @ [prob])"
  then show "pcg_invariant pcgs probs \<and> 2 \<le> length pcg \<and> length prob = length pcg - 1"
    unfolding pcg_invariant_def
    by (auto simp: list_all2_append2 list_all2_Cons2 list_all2_Cons1)
next
  assume "pcg_invariant pcgs probs \<and> 2 \<le> length pcg \<and> length prob = length pcg - 1"
  then show "pcg_invariant (pcgs @ [pcg]) (probs @ [prob])"
    unfolding pcg_invariant_def
    by (auto intro!: list_all2_appendI)
qed

text \<open>
  The first half of \<open>single_break\<close> (the left fragment) and the second half (the right
  fragment), each with what it does to the invariant, to the number of interfaces and to
  the number of crystals.
\<close>

lemma left_fragment:
  assumes "(if interface \<noteq> 1 then
          Inr (st\<lparr>bs_pcgs := bs_pcgs st @ [take interface pcg],
                  bs_csize := bs_csize st @ [take interface csize],
                  bs_chem := bs_chem st @ [take interface chem],
                  bs_prob := bs_prob st @ [take (interface - 1) prob]\<rparr>)
        else free_crystal st pcg csize chem (interface - 1)) = Inr st1"
    and "1 \<le> interface" and "interface < length pcg" and "length prob = length pcg - 1"
  shows "(state_ok st \<longrightarrow> state_ok st1)
         \<and> n_interfaces (bs_pcgs st1) = n_interfaces (bs_pcgs st) + int interface - 1
         \<and> state_crystals st1 = state_crystals st + interface
         \<and> bs_counts st1 = bs_counts st"
proof (cases "interface = 1")
  case True
  with assms(1) have "free_crystal st pcg csize chem 0 = Inr st1" by simp
  from free_crystal_frame [OF this] True show ?thesis
    by (simp add: state_ok_def state_crystals_def)
next
  case False
  with assms(1) have st1: "st1 = st\<lparr>bs_pcgs := bs_pcgs st @ [take interface pcg],
                  bs_csize := bs_csize st @ [take interface csize],
                  bs_chem := bs_chem st @ [take interface chem],
                  bs_prob := bs_prob st @ [take (interface - 1) prob]\<rparr>"
    by simp
  from False assms(2) have "2 \<le> interface" by simp
  with assms(3,4) show ?thesis
    by (simp add: st1 state_ok_def state_crystals_def pcg_invariant_snoc n_interfaces_def
        n_crystals_def min_def)
qed

lemma right_fragment:
  assumes "(if int (length pcg) - int interface \<noteq> 1 then
          Inr (st\<lparr>bs_pcgs := bs_pcgs st @ [drop interface pcg],
                  bs_csize := bs_csize st @ [drop interface csize],
                  bs_chem := bs_chem st @ [drop interface chem],
                  bs_prob := bs_prob st @ [drop interface prob]\<rparr>)
        else free_crystal st pcg csize chem interface) = Inr st1"
    and "1 \<le> interface" and "interface < length pcg" and "length prob = length pcg - 1"
  shows "(state_ok st \<longrightarrow> state_ok st1)
         \<and> n_interfaces (bs_pcgs st1)
             = n_interfaces (bs_pcgs st) + int (length pcg) - int interface - 1
         \<and> state_crystals st1 = state_crystals st + (length pcg - interface)
         \<and> bs_counts st1 = bs_counts st"
proof (cases "int (length pcg) - int interface = 1")
  case True
  with assms(1) have "free_crystal st pcg csize chem interface = Inr st1" by simp
  from free_crystal_frame [OF this] True show ?thesis
    by (simp add: state_ok_def state_crystals_def)
next
  case False
  with assms(1) have st1: "st1 = st\<lparr>bs_pcgs := bs_pcgs st @ [drop interface pcg],
                  bs_csize := bs_csize st @ [drop interface csize],
                  bs_chem := bs_chem st @ [drop interface chem],
                  bs_prob := bs_prob st @ [drop interface prob]\<rparr>"
    by simp
  from False assms(3) have "2 \<le> length pcg - interface" by linarith
  with assms(3,4) show ?thesis
    by (simp add: st1 state_ok_def state_crystals_def pcg_invariant_snoc n_interfaces_def
        n_crystals_def)
qed

lemma single_break_step:
  assumes "single_break st pcg prob csize chem interface = Inr st'"
    and "1 \<le> interface" and "interface < length pcg" and "length prob = length pcg - 1"
  shows "(state_ok st \<longrightarrow> state_ok st')
         \<and> n_interfaces (bs_pcgs st') = n_interfaces (bs_pcgs st) + int (length pcg) - 2
         \<and> state_crystals st' = state_crystals st + length pcg
         \<and> matrix_sum (bs_counts st') = matrix_sum (bs_counts st) - 1"
proof -
  from assms(1) obtain st1 st2 a b counts where
    l: "(if interface \<noteq> 1 then
          Inr (st\<lparr>bs_pcgs := bs_pcgs st @ [take interface pcg],
                  bs_csize := bs_csize st @ [take interface csize],
                  bs_chem := bs_chem st @ [take interface chem],
                  bs_prob := bs_prob st @ [take (interface - 1) prob]\<rparr>)
        else free_crystal st pcg csize chem (interface - 1)) = Inr st1"
    and r: "(if int (length pcg) - int interface \<noteq> 1 then
          Inr (st1\<lparr>bs_pcgs := bs_pcgs st1 @ [drop interface pcg],
                  bs_csize := bs_csize st1 @ [drop interface csize],
                  bs_chem := bs_chem st1 @ [drop interface chem],
                  bs_prob := bs_prob st1 @ [drop interface prob]\<rparr>)
        else free_crystal st1 pcg csize chem interface) = Inr st2"
    and m: "matrix_iadd (bs_counts st2) a b (- 1) = Inr counts"
    and st': "st' = st2\<lparr>bs_counts := counts\<rparr>"
    unfolding single_break_def bindE_Inr_iff by blast
  note L = left_fragment [OF l assms(2-4)]
  note R = right_fragment [OF r assms(2-4)]
  from matrix_iadd_sum [OF m] have M: "matrix_sum counts = matrix_sum (bs_counts st2) - 1"
    by simp
  from L R M assms(3) show ?thesis
    by (simp add: st' state_ok_def state_crystals_def)
qed

lemma foldE_accum:
  fixes mu :: "'s \<Rightarrow> int"
  assumes "foldE f xs s = Inr s'"
    and "\<And>s x s'. x \<in> set xs \<Longrightarrow> f s x = Inr s' \<Longrightarrow> (P s \<longrightarrow> P s') \<and> mu s' = mu s + w x"
  shows "(P s \<longrightarrow> P s') \<and> mu s' = mu s + sum_list (map w xs)"
  using assms
proof (induction xs arbitrary: s)
  case Nil
  then show ?case by simp
next
  case (Cons x xs)
  from Cons.prems(1) obtain s1 where s1: "f s x = Inr s1" "foldE f xs s1 = Inr s'"
    by (auto simp: bindE_Inr_iff)
  from Cons.prems(2) [of x s s1] s1(1)
  have step: "(P s \<longrightarrow> P s1) \<and> mu s1 = mu s + w x" by simp
  have "(P s1 \<longrightarrow> P s') \<and> mu s' = mu s1 + sum_list (map w xs)"
    by (rule Cons.IH [OF s1(2)]) (use Cons.prems(2) in auto)
  with step show ?case by simp
qed

lemma break_pcg_single:
  assumes "\<not> enable_multi_pcg_breakage model"
    and "break_pcg model c st (i, pcg, prob, csize, chem) = Inr st'"
    and "2 \<le> length pcg" and "length prob = length pcg - 1"
  shows "(state_ok st \<longrightarrow> state_ok st')
         \<and> n_interfaces (bs_pcgs st') = n_interfaces (bs_pcgs st) + int (length pcg) - 2
         \<and> state_crystals st' = state_crystals st + length pcg
         \<and> matrix_sum (bs_counts st') = matrix_sum (bs_counts st) - 1"
proof -
  from assms(1,2) obtain pn interface where
    pn: "(if enable_interface_location_prob model then
              bindE (location_prob_of model pcg) (\<lambda>location_prob.
                calculate_normalized_probability location_prob prob)
            else Inr (normalize prob)) = Inr pn"
    and sel: "select_interface i pn c = Inr interface"
    and brk: "single_break st pcg prob csize chem interface = Inr st'"
    by (auto simp: break_pcg_def bindE_Inr_iff)
  from assms(3) have "1 \<le> length pcg" by simp
  from probability_normalized_length [OF pn this assms(4)] select_interface_bound [OF sel]
  have lo: "1 \<le> interface" and "interface \<le> length pcg - 1"
    by simp_all
  with assms(3) have hi: "interface < length pcg"
    by linarith
  from brk lo hi assms(4) show ?thesis
    by (rule single_break_step)
qed

lemma zip3_fst_snd:
  assumes "(a, b, r) \<in> set (zip xs (zip ys zs))"
  shows "(a, b) \<in> set (zip xs ys)"
proof -
  from assms obtain n where "n < length xs" "n < length ys" "xs ! n = a" "ys ! n = b"
    by (auto simp: in_set_zip)
  then show ?thesis
    by (auto simp: in_set_zip intro!: exI [of _ n])
qed

lemma breakage_items_ok:
  assumes "pcg_invariant pcgs probs"
    and "(i, pcg, prob, rest) \<in> set (enumerate 0 (zip pcgs (zip probs others)))"
  shows "2 \<le> length pcg \<and> length prob = length pcg - 1"
proof -
  from assms(2) have "i < length (zip pcgs (zip probs others))"
    and "(pcg, prob, rest) = zip pcgs (zip probs others) ! i"
    by (simp_all add: in_set_enumerate_eq)
  with nth_mem [of i "zip pcgs (zip probs others)"]
  have "(pcg, prob, rest) \<in> set (zip pcgs (zip probs others))"
    by simp
  then have "(pcg, prob) \<in> set (zip pcgs probs)"
    by (rule zip3_fst_snd)
  with assms(1) show ?thesis
    by (auto simp: pcg_invariant_def list_all2_iff)
qed

lemma breakage_items_pcgs:
  assumes "length probs = length pcgs" and "length csizes = length pcgs"
    and "length chems = length pcgs"
  shows "map (fst \<circ> snd) (enumerate 0 (zip pcgs (zip probs (zip csizes chems)))) = pcgs"
  using assms by (simp add: map_map [symmetric] map_fst_zip_take del: map_map)

lemma sum_list_one_minus_length:
  "sum_list (map (\<lambda>p. 1 - int (length p)) ps) = - sum_list (map (\<lambda>p. int (length p) - 1) ps)"
  by (induction ps) simp_all

lemma sum_list_int_length:
  "sum_list (map (\<lambda>p. int (length p)) ps) = int (sum_list (map length ps))"
  by (induction ps) simp_all

text \<open>
  The loop of \<open>inter_crystal_breakage\<close> without \<open>enable_multi_pcg_breakage\<close>, over a state
  in which every pcg has at least two crystals and one weight per interface: the invariant
  holds for the emitted pcgs, one count leaves the matrix per pcg, and every crystal is
  either in an emitted pcg or recorded in \<open>mcg_temp\<close>.
\<close>

lemma inter_crystal_breakage_loop_single:
  assumes nm: "\<not> enable_multi_pcg_breakage model"
    and inv: "pcg_invariant (pcgs_new model) (interface_constant_prob_new model)"
    and lens: "length (crystal_size_array_new model) = length (pcgs_new model)"
      "length (pcg_chem_weath_array_new model) = length (pcgs_new model)"
    and run: "inter_crystal_breakage_loop model c = Inr st"
  shows "pcg_invariant (bs_pcgs st) (bs_prob st)
         \<and> matrix_sum (bs_counts st) - n_interfaces (bs_pcgs st)
             = matrix_sum (interface_counts_matrix model) - n_interfaces (pcgs_new model)
         \<and> matrix_sum (bs_counts st)
             = matrix_sum (interface_counts_matrix model) - int (length (pcgs_new model))
         \<and> n_crystals (bs_pcgs st) + n_freed (bs_mcg_temp st) = n_crystals (pcgs_new model)"
proof -
  let ?items = "enumerate 0
          (zip (pcgs_new model)
            (zip (interface_constant_prob_new model)
              (zip (crystal_size_array_new model) (pcg_chem_weath_array_new model))))"
  let ?init = "\<lparr> bs_pcgs = [], bs_csize = [], bs_prob = [], bs_chem = [],
         bs_mcg_temp = replicate (n_timesteps model) (replicate (n_minerals model) []),
         bs_counts = interface_counts_matrix model \<rparr>"
  from inv have lp: "length (interface_constant_prob_new model) = length (pcgs_new model)"
    by (simp add: pcg_invariant_def list_all2_lengthD)
  note pcgs = breakage_items_pcgs [OF lp lens]
  have fold: "foldE (break_pcg model c) ?items ?init = Inr st"
    using run by (simp add: inter_crystal_breakage_loop_def)
  have step: "(state_ok s \<longrightarrow> state_ok s')
         \<and> n_interfaces (bs_pcgs s') = n_interfaces (bs_pcgs s) + int (length (fst (snd x))) - 2
         \<and> state_crystals s' = state_crystals s + length (fst (snd x))
         \<and> matrix_sum (bs_counts s') = matrix_sum (bs_counts s) - 1"
    if "x \<in> set ?items" "break_pcg model c s x = Inr s'" for s x s'
  proof -
    obtain i pcg prob csize chem where x: "x = (i, pcg, prob, csize, chem)"
      by (cases x) auto
    from breakage_items_ok [OF inv that(1) [unfolded x]]
    have "2 \<le> length pcg" "length prob = length pcg - 1" by simp_all
    from break_pcg_single [OF nm that(2) [unfolded x] this] show ?thesis
      by (simp add: x)
  qed
  have init0: "n_freed (replicate a (replicate b [])) = 0" for a b
    by (simp add: n_freed_def)
  have A: "(state_ok ?init \<longrightarrow> state_ok st)
           \<and> matrix_sum (bs_counts st) - n_interfaces (bs_pcgs st)
               = matrix_sum (bs_counts ?init) - n_interfaces (bs_pcgs ?init)
                 + sum_list (map (\<lambda>x. 1 - int (length (fst (snd x)))) ?items)"
    by (rule foldE_accum [OF fold]) (use step in auto)
  have B: "(True \<longrightarrow> True)
           \<and> matrix_sum (bs_counts st)
               = matrix_sum (bs_counts ?init) + sum_list (map (\<lambda>x. - 1) ?items)"
    by (rule foldE_accum [OF fold]) (use step in auto)
  have C: "(True \<longrightarrow> True)
           \<and> int (state_crystals st)
               = int (state_crystals ?init) + sum_list (map (\<lambda>x. int (length (fst (snd x)))) ?items)"
    by (rule foldE_accum [OF fold]) (use step in auto)
  have sum1: "sum_list (map (\<lambda>x. 1 - int (length (fst (snd x)))) ?items)
                = - n_interfaces (pcgs_new model)"
  proof -
    have "sum_list (map (\<lambda>x. 1 - int (length (fst (snd x)))) ?items)
            = sum_list (map (\<lambda>p. 1 - int (length p)) (map (fst \<circ> snd) ?items))"
      by (simp add: comp_def)
    also have "\<dots> = - sum_list (map (\<lambda>p. int (length p) - 1) (pcgs_new model))"
      unfolding pcgs by (rule sum_list_one_minus_length)
    finally show ?thesis by (simp add: n_interfaces_def)
  qed
  have sum2: "sum_list (map (\<lambda>x. - 1 :: int) ?items) = - int (length (pcgs_new model))"
    using lp lens by (simp add: sum_list_triv)
  have sum3: "sum_list (map (\<lambda>x. int (length (fst (snd x)))) ?items)
                = int (n_crystals (pcgs_new model))"
  proof -
    have "sum_list (map (\<lambda>x. int (length (fst (snd x)))) ?items)
            = sum_list (map (\<lambda>p. int (length p)) (map (fst \<circ> snd) ?items))"
      by (simp add: comp_def)
    also have "\<dots> = int (n_crystals (pcgs_new model))"
      unfolding pcgs n_crystals_def by (rule sum_list_int_length)
    finally show ?thesis .
  qed
  from A B C sum1 sum2 sum3 show ?thesis
    by (simp add: state_ok_def state_crystals_def pcg_invariant_def n_interfaces_def
        n_crystals_def init0)
qed

section \<open>Consistency of the interface counts\<close>

text \<open>
  C4: the sum of \<open>interface_counts_matrix\<close> is meant to equal the number of interfaces of
  the pcgs after every step. With \<open>enable_multi_pcg_breakage\<close> on,
  \<open>inter_crystal_breakage\<close> breaks this: on a state of two pcgs with five interfaces and a
  matrix summing to five it returns no pcg and leaves the five counts in the matrix. And
  \<open>chemical_weathering_pcg\<close> does not rebuild the matrix of a state in which two pcgs or
  more keep a crystal: on the four-pcg example, whose matrix sums to its eight
  interfaces, it raises \<open>TypeError\<close> at the split of the interface weights. (With the
  flag off the loop takes one count out of the matrix per pcg it breaks and keeps the
  sum equal to the number of interfaces: \<open>inter_crystal_breakage_loop_single\<close>.)
\<close>

theorem interface_counts_not_maintained:
  "matrix_sum (interface_counts_matrix (breakage_example\<lparr>enable_multi_pcg_breakage := True\<rparr>))
     = n_interfaces (pcgs_new (breakage_example\<lparr>enable_multi_pcg_breakage := True\<rparr>))
   \<and> inter_crystal_breakage (breakage_example\<lparr>enable_multi_pcg_breakage := True\<rparr>) (\<lambda>i. 1 / 8)
       = Inr ([], [], [], [], mcg breakage_example, [[1, 1], [2, 1]])
   \<and> matrix_sum [[1, 1], [2, 1]] = 5
   \<and> n_interfaces [] = 0
   \<and> matrix_sum (interface_counts_matrix weathering_example)
       = n_interfaces (pcgs_new weathering_example)
   \<and> chemical_weathering_pcg example_general weathering_example = Inl TypeError"
  by code_simp

section \<open>The invariants of the pcg state\<close>

text \<open>
  C5: every fragment of one crystal is meant to be counted into \<open>mcg\<close>. With
  \<open>enable_multi_pcg_breakage\<close> on, a pcg of four crystals whose normalised weights are
  \<open>2/5, 2/5, 1/5\<close> is cut at the boundaries 0 and 1 for the draw \<open>1/2\<close>, into an empty
  fragment, a fragment of one crystal and one of three; \<open>inter_crystal_breakage\<close> then
  returns no pcg and an unchanged \<open>mcg\<close>, so the single crystal is counted nowhere.
  In \<open>chemical_weathering_pcg\<close> the pcgs left with one crystal are grouped by size bin
  alone: two such crystals of minerals 0 and 1 in size bin 2 are both counted in the
  cell of mineral 0. The method itself raises \<open>TypeError\<close> when two pcgs or more keep a
  crystal, here for a state in which two pcgs survive and a third is left with one
  crystal. (With the flag off every crystal of a broken pcg is in a returned pcg or in
  \<open>mcg_temp\<close>: \<open>inter_crystal_breakage_loop_single\<close>.)
\<close>

theorem single_crystal_fragments_lost:
  "pcg_invariant [[1, 1, 0, 0]] [[1, 2, 1 / 2]]
   \<and> bindE (location_prob_of breakage_example [1, 1, 0, 0])
        (\<lambda>location_prob. calculate_normalized_probability location_prob [1, 2, 1 / 2])
       = Inr [2 / 5, 2 / 5, 1 / 5]
   \<and> select_interface 0 [2 / 5, 2 / 5, 1 / 5] (\<lambda>i. 1 / 2) = Inr 2
   \<and> array_split [1 :: nat, 1, 0, 0] (interfaces_selected [2 / 5, 2 / 5, 1 / 5] (1 / 5))
       = [[], [1], [1, 0, 0]]
   \<and> inter_crystal_breakage
        (breakage_example
           \<lparr>enable_multi_pcg_breakage := True, pcgs_new := [[1, 1, 0, 0]],
            crystal_size_array_new := [[0, 1, 2, 3]],
            interface_constant_prob_new := [[1, 2, 1 / 2]],
            pcg_chem_weath_array_new := [[1, 1, 1, 1]]\<rparr>) (\<lambda>i. 1 / 2)
       = Inr ([], [], [], [], mcg breakage_example, [[1, 1], [2, 1]])
   \<and> mcg breakage_example = replicate 3 (replicate 2 (replicate 4 0))
   \<and> promote_single_crystals (replicate 3 (replicate 2 (replicate 4 0)))
         [0, 1] [2, 2] [1, 1] [1, 1] [1, 2]
       = Inr [[[0, 0, 0, 0], [0, 0, 0, 0]], [[0, 0, 2, 0], [0, 0, 0, 0]],
              [[0, 0, 0, 0], [0, 0, 0, 0]]]
   \<and> chemical_weathering_pcg example_general
         (weathering_example
            \<lparr>crystal_size_array_new := [[3, 2, 1], [0, 1, 2, 3], [0, 0], [2, 0, 0]]\<rparr>)
       = Inl TypeError"
  by code_simp

section \<open>Aliasing between a model and its shallow copy\<close>

lemma same_arrays_refl [simp]: "same_arrays a a"
  by (simp add: same_arrays_def)





















text \<open>
  The same on a full run of the four default operations, which returns in the third
  timestep when no pcg is left: the caller's object still names its old \<open>mcg\<close> array
  and pcg lists, and finds its residue array, its interface counts matrix and its
  evolution logs changed by the run.
\<close>

lemma weathering_default_run_mutates_original:
  "case weathering example_general (\<lambda>s i. 1 / 4) example_heap example_instance
          [''intra_cb'', ''inter_cb'', ''chem_mcg'', ''chem_pcg''] None False of
     Inl e \<Rightarrow> False
   | Inr r \<Rightarrow>
       wr_original r = example_instance
       \<and> pcgs_new (attrs (wr_self r)) = []
       \<and> grains_at (wr_heap r) (mcg_ref example_instance)
           = grains_at example_heap (mcg_ref example_instance)
       \<and> rows_at (wr_heap r) (residue_ref example_instance)
           = [[3 / 4, 0], [1 / 2, 0], [3 / 2, 0]]
       \<and> count_rows_at (wr_heap r) (residue_count_ref example_instance)
           = [[0, 0], [0, 0], [0, 0]]
       \<and> counts_at (wr_heap r) (counts_ref example_instance) = [[1, 0], [0, 0]]
       \<and> series_at (wr_heap r) (pcg_additions_ref example_instance) = [2, 1, 0]
       \<and> series_at (wr_heap r) (mcg_additions_ref example_instance) = [6, 10, 0]
       \<and> series_at (wr_heap r) (mcg_broken_additions_ref example_instance) = [5, 7, 0]
       \<and> rows_at (wr_heap r) (residue_additions_ref example_instance)
           = [[3 / 4, 0], [1 / 2, 0], [0, 0]]"
  by code_simp

end
